theory Spec2Isabelle
  imports Main "HOL-Library.Finite_Map"
begin

section \<open>Meal ledger: data model\<close>

text \<open>
  The ledger component keeps, per student, an object keyed by the day of the month whose
  values hold the three meal flags. A JavaScript object has finitely many keys, no
  duplicates, and its content does not depend on insertion order, so \<open>MealData\<close> is a
  finite map. Days are natural numbers, month and year are integers (month is 0-indexed).
  The field \<open>id\<close> of a student is \<open>sid\<close> here; the fields \<open>S\<close>, \<open>T1\<close>, \<open>T2\<close> are
  \<open>mS\<close>, \<open>mT1\<close>, \<open>mT2\<close> in a day entry, \<open>qS\<close>, \<open>qT1\<close>, \<open>qT2\<close> in the quotas and
  \<open>tS\<close>, \<open>tT1\<close>, \<open>tT2\<close> in the totals of a student.
\<close>

datatype MealType = S | T1 | T2

record DayMeals =
  mS :: bool
  mT1 :: bool
  mT2 :: bool

type_synonym MealData = "(nat, DayMeals) fmap"

record Student =
  sid :: string
  name :: string
  meals :: MealData

record StandardMeals =
  qS :: int
  qT1 :: int
  qT2 :: int

text \<open>The literal \<open>{ S: false, T1: false, T2: false }\<close> used wherever a day entry is missing.\<close>

definition noMeals :: DayMeals where
  "noMeals = \<lparr>mS = False, mT1 = False, mT2 = False\<rparr>"

text \<open>\<open>dm[meal]\<close> and \<open>{ ...dm, [meal]: b }\<close>.\<close>

fun getMeal :: "DayMeals \<Rightarrow> MealType \<Rightarrow> bool" where
  "getMeal dm S = mS dm"
| "getMeal dm T1 = mT1 dm"
| "getMeal dm T2 = mT2 dm"

fun setMeal :: "DayMeals \<Rightarrow> MealType \<Rightarrow> bool \<Rightarrow> DayMeals" where
  "setMeal dm S b = dm\<lparr>mS := b\<rparr>"
| "setMeal dm T1 b = dm\<lparr>mT1 := b\<rparr>"
| "setMeal dm T2 b = dm\<lparr>mT2 := b\<rparr>"

text \<open>\<open>s.meals[day] || { S: false, T1: false, T2: false }\<close>: an object is always truthy.\<close>

definition orNoMeals :: "DayMeals option \<Rightarrow> DayMeals" where
  "orNoMeals e = (case e of None \<Rightarrow> noMeals | Some dm \<Rightarrow> dm)"

text \<open>\<open>!!s.meals[day]?.[meal]\<close>, also the truth value of \<open>s.meals[day]?.[meal]\<close>.\<close>

definition markAt :: "MealData \<Rightarrow> nat \<Rightarrow> MealType \<Rightarrow> bool" where
  "markAt m day meal = (case fmlookup m day of None \<Rightarrow> False | Some dm \<Rightarrow> getMeal dm meal)"

section \<open>Calendar helpers\<close>

text \<open>
  \<open>new Date(year, month, day)\<close> is modelled by the number of the civil day it denotes,
  counted from 1 January 1970, following the ECMAScript definitions \<open>DayFromYear\<close>,
  \<open>MakeDay\<close> (months outside 0..11 carry into the year) and the constructor's rule that
  a year from 0 to 99 means 1900 + year. \<open>getDay\<close> is \<open>WeekDay\<close>. The theory covers
  the dates the \<open>Date\<close> type can represent.
\<close>

definition DAYS_OF_WEEK :: "string list" where
  "DAYS_OF_WEEK = [''CN'', ''2'', ''3'', ''4'', ''5'', ''6'', ''7'']"

definition DayFromYear :: "int \<Rightarrow> int" where
  "DayFromYear y =
     365 * (y - 1970) + (y - 1969) div 4 - (y - 1901) div 100 + (y - 1601) div 400"

definition InLeapYear :: "int \<Rightarrow> bool" where
  "InLeapYear y = (y mod 4 = 0 \<and> (y mod 100 \<noteq> 0 \<or> y mod 400 = 0))"

definition monthOffset :: "int \<Rightarrow> nat \<Rightarrow> int" where
  "monthOffset y mn =
     [0, 31, 59, 90, 120, 151, 181, 212, 243, 273, 304, 334] ! mn
       + (if InLeapYear y \<and> 2 \<le> mn then 1 else 0)"

definition MakeDay :: "int \<Rightarrow> int \<Rightarrow> int \<Rightarrow> int" where
  "MakeDay year month date =
     (let ym = year + month div 12; mn = nat (month mod 12)
      in DayFromYear ym + monthOffset ym mn + date - 1)"

definition newDate :: "int \<Rightarrow> int \<Rightarrow> int \<Rightarrow> int" where
  "newDate year month day =
     MakeDay (if 0 \<le> year \<and> year \<le> 99 then 1900 + year else year) month day"

definition getDay :: "int \<Rightarrow> nat" where
  "getDay d = nat ((d + 4) mod 7)"

text \<open>
  \<open>new Date(year, month + 1, 0).getDate()\<close>: day 0 of the following month is the last day
  of \<open>month\<close>, whose day-of-month is its distance from day 0 of \<open>month\<close>.
\<close>

definition getDaysInMonth :: "int \<Rightarrow> int \<Rightarrow> nat" where
  "getDaysInMonth month year = nat (newDate year (month + 1) 0 - newDate year month 0)"

definition getDayOfWeek :: "nat \<Rightarrow> int \<Rightarrow> int \<Rightarrow> string" where
  "getDayOfWeek day month year = DAYS_OF_WEEK ! getDay (newDate year month (int day))"

definition firstHalfDays :: "nat list" where
  "firstHalfDays = [1 ..< 17]"

definition secondHalfDays :: "nat \<Rightarrow> nat list" where
  "secondHalfDays daysInMonth = filter (\<lambda>i. i \<le> daysInMonth) [17 ..< Suc daysInMonth]"

section \<open>Edit operations\<close>

text \<open>
  Each handler passes a function of the previous roster to \<open>setStudents\<close>; the definitions
  below are those functions. A handler that returns early (no clipboard, \<open>confirm\<close>
  answered no) leaves the roster as it is; the answer of \<open>confirm\<close> is the parameter
  \<open>confirmed\<close>, and a clipboard that is still \<open>null\<close> is \<open>None\<close>.
\<close>

definition toggleMeal :: "string \<Rightarrow> nat \<Rightarrow> MealType \<Rightarrow> Student list \<Rightarrow> Student list" where
  "toggleMeal studentId day meal prev =
     map (\<lambda>s. if sid s \<noteq> studentId then s
               else (let currentMeals = orNoMeals (fmlookup (meals s) day)
                     in s\<lparr>meals := fmupd day
                          (setMeal currentMeals meal (\<not> getMeal currentMeals meal)) (meals s)\<rparr>))
         prev"

text \<open>\<open>JSON.parse(JSON.stringify(m))\<close> is a deep copy: the same value.\<close>

definition copyMeals :: "Student \<Rightarrow> MealData option" where
  "copyMeals student = Some (meals student)"

definition pasteMeals :: "MealData option \<Rightarrow> string \<Rightarrow> Student list \<Rightarrow> Student list" where
  "pasteMeals clipboard studentId prev =
     (case clipboard of
        None \<Rightarrow> prev
      | Some c \<Rightarrow> map (\<lambda>s. if sid s = studentId then s\<lparr>meals := c\<rparr> else s) prev)"

definition pasteToAll :: "MealData option \<Rightarrow> bool \<Rightarrow> Student list \<Rightarrow> Student list" where
  "pasteToAll clipboard confirmed prev =
     (case clipboard of
        None \<Rightarrow> prev
      | Some c \<Rightarrow> if \<not> confirmed then prev else map (\<lambda>s. s\<lparr>meals := c\<rparr>) prev)"

definition copyColumn :: "nat \<Rightarrow> MealType \<Rightarrow> Student list \<Rightarrow> bool list option" where
  "copyColumn day meal students = Some (map (\<lambda>s. markAt (meals s) day meal) students)"

text \<open>\<open>columnClipboard[idx] || false\<close>: reading past the end gives \<open>undefined\<close>.\<close>

definition clipAt :: "bool list \<Rightarrow> nat \<Rightarrow> bool" where
  "clipAt cb idx = (if idx < length cb then cb ! idx else False)"

definition pasteColumn :: "bool list option \<Rightarrow> nat \<Rightarrow> MealType \<Rightarrow> Student list \<Rightarrow> Student list" where
  "pasteColumn columnClipboard day meal prev =
     (case columnClipboard of
        None \<Rightarrow> prev
      | Some cb \<Rightarrow>
          map (\<lambda>(idx, s).
                 let currentMeals = orNoMeals (fmlookup (meals s) day)
                 in s\<lparr>meals := fmupd day (setMeal currentMeals meal (clipAt cb idx)) (meals s)\<rparr>)
              (List.enumerate 0 prev))"

definition fillColumn :: "nat \<Rightarrow> MealType \<Rightarrow> Student list \<Rightarrow> Student list" where
  "fillColumn day meal prev =
     map (\<lambda>s. let currentMeals = orNoMeals (fmlookup (meals s) day)
               in s\<lparr>meals := fmupd day (setMeal currentMeals meal True) (meals s)\<rparr>) prev"

definition clearColumn :: "nat \<Rightarrow> MealType \<Rightarrow> Student list \<Rightarrow> Student list" where
  "clearColumn day meal prev =
     map (\<lambda>s. let currentMeals = orNoMeals (fmlookup (meals s) day)
               in s\<lparr>meals := fmupd day (setMeal currentMeals meal False) (meals s)\<rparr>) prev"

definition clearDay :: "bool \<Rightarrow> nat \<Rightarrow> Student list \<Rightarrow> Student list" where
  "clearDay confirmed day prev =
     (if \<not> confirmed then prev
      else map (\<lambda>s. s\<lparr>meals := fmdrop day (meals s)\<rparr>) prev)"

definition clearMonth :: "bool \<Rightarrow> Student list \<Rightarrow> Student list" where
  "clearMonth confirmed prev =
     (if \<not> confirmed then prev else map (\<lambda>s. s\<lparr>meals := fmempty\<rparr>) prev)"

definition clearAllStudents :: "bool \<Rightarrow> Student list \<Rightarrow> Student list" where
  "clearAllStudents confirmed prev = (if \<not> confirmed then prev else [])"

definition updateStudentName :: "string \<Rightarrow> string \<Rightarrow> Student list \<Rightarrow> Student list" where
  "updateStudentName i newName prev =
     map (\<lambda>s. if sid s = i then s\<lparr>name := newName\<rparr> else s) prev"

definition removeStudent :: "bool \<Rightarrow> string \<Rightarrow> Student list \<Rightarrow> Student list" where
  "removeStudent confirmed i prev =
     (if confirmed then filter (\<lambda>s. sid s \<noteq> i) prev else prev)"

subsection \<open>Weekday-based automatic fill\<close>

text \<open>The body of the \<open>for\<close> loop of \<open>autoFillMeals\<close>, for one day.\<close>

definition autoFillDay :: "int \<Rightarrow> int \<Rightarrow> nat \<Rightarrow> MealData \<Rightarrow> MealData" where
  "autoFillDay month year day newMeals =
     (let dow = getDayOfWeek day month year
      in if dow = ''7'' \<or> dow = ''CN'' then newMeals
         else (let currentMeals = orNoMeals (fmlookup newMeals day)
               in if dow = ''6''
                  then fmupd day (currentMeals\<lparr>mS := True, mT1 := True, mT2 := False\<rparr>) newMeals
                  else fmupd day (currentMeals\<lparr>mS := True, mT1 := True, mT2 := True\<rparr>) newMeals))"

text \<open>\<open>for (let day = ...; day <= daysInMonth; day++)\<close>, started at \<open>day = 1\<close>.\<close>

function autoFillLoop :: "int \<Rightarrow> int \<Rightarrow> nat \<Rightarrow> nat \<Rightarrow> MealData \<Rightarrow> MealData" where
  "autoFillLoop month year daysInMonth day newMeals =
     (if day \<le> daysInMonth
      then autoFillLoop month year daysInMonth (Suc day) (autoFillDay month year day newMeals)
      else newMeals)"
  by pat_completeness auto
termination
  by (relation "measure (\<lambda>(month, year, daysInMonth, day, newMeals). Suc daysInMonth - day)") auto

definition autoFillMeals :: "bool \<Rightarrow> int \<Rightarrow> int \<Rightarrow> Student list \<Rightarrow> Student list" where
  "autoFillMeals confirmed month year prev =
     (if \<not> confirmed then prev
      else map (\<lambda>s. s\<lparr>meals := autoFillLoop month year (getDaysInMonth month year) 1 (meals s)\<rparr>)
             prev)"

section \<open>Totals calculator\<close>

text \<open>
  \<open>Object.values(student.meals)\<close>: the values of the integer-keyed entries, in ascending
  key order.
\<close>

definition objectValues :: "MealData \<Rightarrow> DayMeals list" where
  "objectValues m = List.map_filter (fmlookup m) (sorted_list_of_fset (fmdom m))"

record Totals =
  tS :: nat
  tT1 :: nat
  tT2 :: nat
  uS :: int
  uT1 :: int
  uT2 :: int

text \<open>
  The body of the \<open>forEach\<close> of \<open>calculateStudentTotals\<close>, on the three counters.
  The quotas and the unfulfilled counts are JavaScript numbers that hold integers. Their
  subtraction is the one of the integers as long as the quota and the difference are at
  most \<open>2 ^ 53\<close> in absolute value; beyond that the program rounds, and the properties
  of the unfulfilled counts are stated for that range only.
\<close>

definition countDay :: "DayMeals \<Rightarrow> nat \<times> nat \<times> nat \<Rightarrow> nat \<times> nat \<times> nat" where
  "countDay dayMeals c =
     (case c of (sCount, t1Count, t2Count) \<Rightarrow>
        (if mS dayMeals then Suc sCount else sCount,
         if mT1 dayMeals then Suc t1Count else t1Count,
         if mT2 dayMeals then Suc t2Count else t2Count))"

definition calculateStudentTotals :: "StandardMeals \<Rightarrow> Student \<Rightarrow> Totals" where
  "calculateStudentTotals stdMeals student =
     (case fold countDay (objectValues (meals student)) (0, 0, 0) of
        (sCount, t1Count, t2Count) \<Rightarrow>
          \<lparr>tS = sCount, tT1 = t1Count, tT2 = t2Count,
           uS = qS stdMeals - int sCount,
           uT1 = qT1 stdMeals - int t1Count,
           uT2 = qT2 stdMeals - int t2Count\<rparr>)"

definition calculateDayTotals :: "Student list \<Rightarrow> nat \<Rightarrow> MealType \<Rightarrow> nat" where
  "calculateDayTotals studs day meal =
     foldl (\<lambda>acc s. acc + (if markAt (meals s) day meal then 1 else 0)) 0 studs"

section \<open>Rollover and reconciliation\<close>

text \<open>
  A row of \<open>monthly_sheets\<close> as the storage client returns it: every column read here is
  nullable. The two queries (the row of the requested month, the most recent row strictly
  before it) are answered by the storage service; their results are parameters.
\<close>

record Row =
  school_name :: "string option"
  class_name :: "string option"
  teacher_name :: "string option"
  location_col :: "string option"
  students_col :: "Student list option"
  standard_meals :: "StandardMeals option"

record AppState =
  schoolName :: string
  className :: string
  teacherName :: string
  location :: string
  standardMeals :: StandardMeals
  students :: "Student list"
  isDirty :: bool
  loading :: bool

text \<open>The default texts, as UTF-8 bytes where they leave ASCII.\<close>

definition DEFAULT_SCHOOL_NAME :: string where
  "DEFAULT_SCHOOL_NAME =
     ''TR'' @ [CHR 0xC6, CHR 0xAF, CHR 0xE1, CHR 0xBB, CHR 0x9C] @ ''NG PTDTBT TH&THCS SU''
       @ [CHR 0xE1, CHR 0xBB, CHR 0x90] @ ''I L'' @ [CHR 0xE1, CHR 0xBB, CHR 0xAA]"

definition DEFAULT_CLASS_NAME :: string where
  "DEFAULT_CLASS_NAME = ''8C1''"

definition DEFAULT_TEACHER_NAME :: string where
  "DEFAULT_TEACHER_NAME =
     ''V'' @ [CHR 0xC5, CHR 0xA9] @ '' V'' @ [CHR 0xC4, CHR 0x83] @ ''n H''
       @ [CHR 0xC3, CHR 0xB9] @ ''ng''"

definition DEFAULT_LOCATION :: string where
  "DEFAULT_LOCATION =
     ''Su'' @ [CHR 0xE1, CHR 0xBB, CHR 0x91] @ ''i L'' @ [CHR 0xE1, CHR 0xBB, CHR 0xAB]"

definition DEFAULT_STANDARD_MEALS :: StandardMeals where
  "DEFAULT_STANDARD_MEALS = \<lparr>qS = 14, qT1 = 14, qT2 = 12\<rparr>"

definition INITIAL_STUDENTS :: "Student list" where
  "INITIAL_STUDENTS = []"

text \<open>\<open>x || d\<close> on a nullable string: \<open>null\<close> and the empty string are falsy.\<close>

definition orString :: "string option \<Rightarrow> string \<Rightarrow> string" where
  "orString x d = (case x of None \<Rightarrow> d | Some v \<Rightarrow> if v = [] then d else v)"

text \<open>\<open>x || d\<close> on a nullable object or array: only \<open>null\<close> is falsy.\<close>

definition orValue :: "'a option \<Rightarrow> 'a \<Rightarrow> 'a" where
  "orValue x d = (case x of None \<Rightarrow> d | Some v \<Rightarrow> v)"

text \<open>
  \<open>fetchData\<close>, from the answers of the two queries: \<open>data\<close> is the row of the requested
  month, \<open>latestData\<close> the most recent earlier row (read only when \<open>data\<close> is missing).
\<close>

definition fetchData :: "Row option \<Rightarrow> Row option \<Rightarrow> AppState \<Rightarrow> AppState" where
  "fetchData data latestData st =
     (case data of
        Some d \<Rightarrow>
          st\<lparr>schoolName := orString (school_name d) DEFAULT_SCHOOL_NAME,
             className := orString (class_name d) DEFAULT_CLASS_NAME,
             teacherName := orString (teacher_name d) DEFAULT_TEACHER_NAME,
             location := orString (location_col d) DEFAULT_LOCATION,
             students := orValue (students_col d) INITIAL_STUDENTS,
             standardMeals := orValue (standard_meals d) DEFAULT_STANDARD_MEALS,
             isDirty := False,
             loading := False\<rparr>
      | None \<Rightarrow>
          (case latestData of
             Some l \<Rightarrow>
               st\<lparr>schoolName := orString (school_name l) DEFAULT_SCHOOL_NAME,
                  className := orString (class_name l) DEFAULT_CLASS_NAME,
                  teacherName := orString (teacher_name l) DEFAULT_TEACHER_NAME,
                  location := orString (location_col l) DEFAULT_LOCATION,
                  standardMeals := orValue (standard_meals l) DEFAULT_STANDARD_MEALS,
                  students := map (\<lambda>s. s\<lparr>meals := fmempty\<rparr>) (orValue (students_col l) []),
                  isDirty := True,
                  loading := False\<rparr>
           | None \<Rightarrow> st\<lparr>students := INITIAL_STUDENTS, isDirty := False, loading := False\<rparr>))"

text \<open>\<open>Array.prototype.findIndex\<close>; the result \<open>-1\<close> is \<open>None\<close>.\<close>

fun findIndex :: "('a \<Rightarrow> bool) \<Rightarrow> 'a list \<Rightarrow> nat option" where
  "findIndex P [] = None"
| "findIndex P (x # xs) = (if P x then Some 0 else map_option Suc (findIndex P xs))"

text \<open>
  The body of \<open>prevStudents.forEach\<close>: \<open>exists\<close> is looked up in the roster as it was
  before the loop, the index in the roster being built. An assignment at index \<open>-1\<close>
  would not touch any element of the array.
\<close>

definition syncStep :: "Student list \<Rightarrow> Student \<Rightarrow> Student list \<Rightarrow> Student list" where
  "syncStep currentStudents ps newStudents =
     (case find (\<lambda>cs. sid cs = sid ps) currentStudents of
        None \<Rightarrow> newStudents @ [ps\<lparr>meals := fmempty\<rparr>]
      | Some found \<Rightarrow>
          (case findIndex (\<lambda>ns. sid ns = sid ps) newStudents of
             None \<Rightarrow> newStudents
           | Some idx \<Rightarrow> newStudents[idx := (newStudents ! idx)\<lparr>name := name ps\<rparr>]))"

definition syncStudents :: "Student list \<Rightarrow> Student list \<Rightarrow> Student list" where
  "syncStudents prevStudents prev = fold (syncStep prev) prevStudents prev"

datatype Alert = SyncSucceeded | SyncNothingFound

text \<open>
  \<open>syncFromPreviousMonth\<close>: \<open>user\<close> says whether a user is signed in, \<open>latestData\<close> is
  the answer of the query for the most recent earlier row. The result is the roster and
  the message shown, if any.
\<close>

definition syncFromPreviousMonth ::
    "bool \<Rightarrow> bool \<Rightarrow> Row option \<Rightarrow> Student list \<Rightarrow> Student list \<times> Alert option" where
  "syncFromPreviousMonth user confirmed latestData prev =
     (if \<not> user then (prev, None)
      else if \<not> confirmed then (prev, None)
      else (case latestData of
              None \<Rightarrow> (prev, Some SyncNothingFound)
            | Some l \<Rightarrow>
                (case students_col l of
                   None \<Rightarrow> (prev, Some SyncNothingFound)
                 | Some prevStudents \<Rightarrow> (syncStudents prevStudents prev, Some SyncSucceeded))))"

section \<open>Spreadsheet export\<close>

text \<open>\<open>String(n)\<close> and \<open>${n}\<close> for a non-negative integer.\<close>

fun showNat :: "nat \<Rightarrow> string" where
  "showNat n =
     (if n < 10 then [char_of (48 + n)] else showNat (n div 10) @ [char_of (48 + n mod 10)])"

record Col =
  header :: string
  key :: string
  width :: nat

text \<open>The array \<open>cols\<close> of \<open>createSheet\<close>.\<close>

definition sheetCols :: "nat list \<Rightarrow> bool \<Rightarrow> Col list" where
  "sheetCols days isSecondHalf =
     [\<lparr>header = ''STT'', key = ''stt'', width = 5\<rparr>,
      \<lparr>header = ''H'' @ [CHR 0xE1, CHR 0xBB, CHR 0x8D] @ '' v'' @ [CHR 0xC3, CHR 0xA0]
                 @ '' t'' @ [CHR 0xC3, CHR 0xAA] @ ''n'',
       key = ''name'', width = 25\<rparr>]
     @ concat (map (\<lambda>d.
         [\<lparr>header = showNat d @ '' (S)'', key = ''d'' @ showNat d @ ''_S'', width = 4\<rparr>,
          \<lparr>header = showNat d @ '' (T)'', key = ''d'' @ showNat d @ ''_T1'', width = 4\<rparr>,
          \<lparr>header = showNat d @ '' (T)'', key = ''d'' @ showNat d @ ''_T2'', width = 4\<rparr>]) days)
     @ (if isSecondHalf
        then [\<lparr>header = ''T'' @ [CHR 0xE1, CHR 0xBB, CHR 0x95] @ ''ng S'', key = ''total_S'', width = 6\<rparr>,
              \<lparr>header = ''T'' @ [CHR 0xE1, CHR 0xBB, CHR 0x95] @ ''ng T'', key = ''total_T1'', width = 6\<rparr>,
              \<lparr>header = ''T'' @ [CHR 0xE1, CHR 0xBB, CHR 0x95] @ ''ng T'', key = ''total_T2'', width = 6\<rparr>,
              \<lparr>header = ''Kh'' @ [CHR 0xC3, CHR 0xB4] @ ''ng S'', key = ''u_S'', width = 6\<rparr>,
              \<lparr>header = ''Kh'' @ [CHR 0xC3, CHR 0xB4] @ ''ng T'', key = ''u_T1'', width = 6\<rparr>,
              \<lparr>header = ''Kh'' @ [CHR 0xC3, CHR 0xB4] @ ''ng T'', key = ''u_T2'', width = 6\<rparr>]
        else [])"

datatype Cell = Num int | Str string

text \<open>\<open>rowValues\<close> of the data row of \<open>student\<close> at position \<open>index\<close>.\<close>

definition rowValues :: "StandardMeals \<Rightarrow> nat list \<Rightarrow> bool \<Rightarrow> nat \<Rightarrow> Student \<Rightarrow> Cell list" where
  "rowValues stdMeals days isSecondHalf index student =
     (let totals = calculateStudentTotals stdMeals student
      in [Num (int index + 1), Str (name student)]
         @ concat (map (\<lambda>d.
             [Str (if markAt (meals student) d S then ''+'' else []),
              Str (if markAt (meals student) d T1 then ''+'' else []),
              Str (if markAt (meals student) d T2 then ''+'' else [])]) days)
         @ (if isSecondHalf
            then [Num (int (tS totals)), Num (int (tT1 totals)), Num (int (tT2 totals)),
                  Num (uS totals), Num (uT1 totals), Num (uT2 totals)]
            else []))"

text \<open>\<open>totalRowValues\<close>, the row of per-day headcounts.\<close>

definition totalRowValues :: "Student list \<Rightarrow> nat list \<Rightarrow> bool \<Rightarrow> string list" where
  "totalRowValues studs days isSecondHalf =
     [''C'' @ [CHR 0xE1, CHR 0xBB, CHR 0x98] @ ''NG'', []]
     @ concat (map (\<lambda>d.
         [showNat (calculateDayTotals studs d S),
          showNat (calculateDayTotals studs d T1),
          showNat (calculateDayTotals studs d T2)]) days)
     @ (if isSecondHalf then [[], [], [], [], [], []] else [])"

definition lastCol :: "nat list \<Rightarrow> bool \<Rightarrow> nat" where
  "lastCol days isSecondHalf =
     (if isSecondHalf then 2 + length days * 3 + 6 else 2 + length days * 3)"

text \<open>
  The two pages written by \<open>handleExportExcel\<close>: for each, the columns, the data rows
  in roster order and the totals row.
\<close>

record Sheet =
  columns :: "Col list"
  dataRows :: "Cell list list"
  totalRow :: "string list"

definition createSheet ::
    "StandardMeals \<Rightarrow> Student list \<Rightarrow> nat list \<Rightarrow> bool \<Rightarrow> Sheet" where
  "createSheet stdMeals studs days isSecondHalf =
     \<lparr>columns = sheetCols days isSecondHalf,
      dataRows = map (\<lambda>(index, student). rowValues stdMeals days isSecondHalf index student)
                   (List.enumerate 0 studs),
      totalRow = totalRowValues studs days isSecondHalf\<rparr>"

definition handleExportExcel :: "StandardMeals \<Rightarrow> Student list \<Rightarrow> int \<Rightarrow> int \<Rightarrow> Sheet \<times> Sheet" where
  "handleExportExcel stdMeals studs month year =
     (createSheet stdMeals studs firstHalfDays False,
      createSheet stdMeals studs (secondHalfDays (getDaysInMonth month year)) True)"

section \<open>Notions used to state the properties\<close>

text \<open>
  The name a current student \<open>cs\<close> has after all of \<open>prevStudents\<close> were processed,
  when it is the student the loop finds for its id: the name of the last earlier student
  with that id, or its own name when there is none.
\<close>

definition syncedName :: "Student list \<Rightarrow> Student \<Rightarrow> string" where
  "syncedName prevStudents cs =
     (let ms = filter (\<lambda>ps. sid ps = sid cs) prevStudents
      in if ms = [] then name cs else name (last ms))"

text \<open>
  The current roster after the sync, and the students appended behind it: the earlier
  students whose id no current student has, with empty meals.
\<close>

definition syncedPrefix :: "Student list \<Rightarrow> Student list \<Rightarrow> Student list" where
  "syncedPrefix prevStudents cur =
     map (\<lambda>(i, c). c\<lparr>name := (if findIndex (\<lambda>x. sid x = sid c) cur = Some i
                               then syncedName prevStudents c else name c)\<rparr>)
         (List.enumerate 0 cur)"

definition syncedSuffix :: "Student list \<Rightarrow> Student list \<Rightarrow> Student list" where
  "syncedSuffix prevStudents cur =
     map (\<lambda>ps. ps\<lparr>meals := fmempty\<rparr>) (filter (\<lambda>ps. sid ps \<notin> sid ` set cur) prevStudents)"

text \<open>
  \<open>dense\<close> is \<open>sparse\<close> with some of its absent days replaced by the explicit entry
  \<open>{S: false, T1: false, T2: false}\<close>; the entries of \<open>sparse\<close> are kept.
\<close>

definition sparseDense :: "MealData \<Rightarrow> MealData \<Rightarrow> bool" where
  "sparseDense sparse dense =
     (fmdom sparse |\<subseteq>| fmdom dense
      \<and> fBall (fmdom dense) (\<lambda>d. fmlookup dense d =
            (case fmlookup sparse d of None \<Rightarrow> Some noMeals | Some dm \<Rightarrow> Some dm)))"

text \<open>The same students, position by position, the second with the denser meals.\<close>

definition sparseDenseRoster :: "Student list \<Rightarrow> Student list \<Rightarrow> bool" where
  "sparseDenseRoster r1 r2 =
     list_all2 (\<lambda>a b. sid a = sid b \<and> name a = name b \<and> sparseDense (meals a) (meals b)) r1 r2"

text \<open>
  Two rosters with the same ids and names at each position and the same mark for every
  day and meal, an absent day reading as all false.
\<close>

definition sameMarks :: "Student list \<Rightarrow> Student list \<Rightarrow> bool" where
  "sameMarks r1 r2 =
     (length r1 = length r2
      \<and> (\<forall>i d meal. i < length r1 \<longrightarrow>
            sid (r1 ! i) = sid (r2 ! i) \<and> name (r1 ! i) = name (r2 ! i)
            \<and> markAt (meals (r1 ! i)) d meal = markAt (meals (r2 ! i)) d meal))"

text \<open>
  What the rest of the program can see of a roster: ids, names, the totals of each student,
  the headcount of each day and meal, each column as \<open>copyColumn\<close> reads it, and the
  two export pages of any month.
\<close>

definition observablyEqual :: "StandardMeals \<Rightarrow> Student list \<Rightarrow> Student list \<Rightarrow> bool" where
  "observablyEqual q r1 r2 =
     (map sid r1 = map sid r2 \<and> map name r1 = map name r2
      \<and> map (calculateStudentTotals q) r1 = map (calculateStudentTotals q) r2
      \<and> (\<forall>d meal. calculateDayTotals r1 d meal = calculateDayTotals r2 d meal)
      \<and> (\<forall>d meal. copyColumn d meal r1 = copyColumn d meal r2)
      \<and> (\<forall>month year. handleExportExcel q r1 month year = handleExportExcel q r2 month year))"

text \<open>The position of a meal among the three columns of a day.\<close>

fun mealOffset :: "MealType \<Rightarrow> nat" where
  "mealOffset S = 0"
| "mealOffset T1 = 1"
| "mealOffset T2 = 2"

section \<open>Basic facts about day entries and marks\<close>

lemma orNoMeals_simps: "orNoMeals None = noMeals" "orNoMeals (Some dm) = dm"
  by (simp_all add: orNoMeals_def)

lemma getMeal_setMeal:
  "getMeal (setMeal dm meal b) meal' = (if meal' = meal then b else getMeal dm meal')"
  by (cases meal; cases meal') simp_all

lemma setMeal_getMeal: "setMeal dm meal (getMeal dm meal) = dm"
  by (cases meal) simp_all

lemma getMeal_noMeals: "getMeal noMeals meal = False"
  by (cases meal) (simp_all add: noMeals_def)

lemma markAt_orNoMeals: "markAt m day meal = getMeal (orNoMeals (fmlookup m day)) meal"
  by (simp add: markAt_def orNoMeals_def getMeal_noMeals split: option.splits)

lemma markAt_fmupd:
  "markAt (fmupd day dm m) d meal = (if d = day then getMeal dm meal else markAt m d meal)"
  by (simp add: markAt_def)

lemma markAt_fmdrop:
  "markAt (fmdrop day m) d meal = (if d = day then False else markAt m d meal)"
  by (simp add: markAt_def)

lemma markAt_fmempty: "markAt fmempty d meal = False"
  by (simp add: markAt_def)

lemma all_less_two: "(\<forall>i<Suc (Suc 0). P i) = (P 0 \<and> P (Suc 0))"
  by (auto simp: less_Suc_eq)

section \<open>Operations keyed by an unknown student\<close>

text \<open>
  C10: when no student of the roster has the given id, \<open>toggleMeal\<close>, \<open>pasteMeals\<close>
  (row paste, whatever the clipboard holds) and \<open>updateStudentName\<close> return the roster
  unchanged: every student keeps its id, name, meals and position.
\<close>

theorem absent_id_is_identity:
  assumes "studentId \<notin> sid ` set prev"
  shows "toggleMeal studentId day meal prev = prev
       \<and> pasteMeals clipboard studentId prev = prev
       \<and> updateStudentName studentId newName prev = prev"
proof -
  have "\<forall>s \<in> set prev. sid s \<noteq> studentId" using assms by auto
  then show ?thesis
    by (auto simp: toggleMeal_def pasteMeals_def updateStudentName_def map_idI
          split: option.splits)
qed

theorem absent_id_is_identity_witness:
  "''zz'' \<notin> sid ` set [\<lparr>sid = ''a'', name = ''Linh'',
                            meals = fmupd 1 \<lparr>mS = True, mT1 = False, mT2 = False\<rparr> fmempty\<rparr>]
   \<and> toggleMeal ''zz'' 1 S [\<lparr>sid = ''a'', name = ''Linh'',
                            meals = fmupd 1 \<lparr>mS = True, mT1 = False, mT2 = False\<rparr> fmempty\<rparr>]
       = [\<lparr>sid = ''a'', name = ''Linh'',
           meals = fmupd 1 \<lparr>mS = True, mT1 = False, mT2 = False\<rparr> fmempty\<rparr>]
   \<and> pasteMeals (Some fmempty) ''zz'' [\<lparr>sid = ''a'', name = ''Linh'',
                            meals = fmupd 1 \<lparr>mS = True, mT1 = False, mT2 = False\<rparr> fmempty\<rparr>]
       = [\<lparr>sid = ''a'', name = ''Linh'',
           meals = fmupd 1 \<lparr>mS = True, mT1 = False, mT2 = False\<rparr> fmempty\<rparr>]
   \<and> updateStudentName ''zz'' ''Mai'' [\<lparr>sid = ''a'', name = ''Linh'',
                            meals = fmupd 1 \<lparr>mS = True, mT1 = False, mT2 = False\<rparr> fmempty\<rparr>]
       = [\<lparr>sid = ''a'', name = ''Linh'',
           meals = fmupd 1 \<lparr>mS = True, mT1 = False, mT2 = False\<rparr> fmempty\<rparr>]"
proof -
  have h: "''zz'' \<notin> sid ` set [\<lparr>sid = ''a'', name = ''Linh'',
                            meals = fmupd 1 \<lparr>mS = True, mT1 = False, mT2 = False\<rparr> fmempty\<rparr>]"
    by simp
  from absent_id_is_identity [OF h, of 1 S "Some fmempty" "''Mai''"] h
  show ?thesis by simp
qed

section \<open>Toggling a mark\<close>

lemma length_toggleMeal: "length (toggleMeal studentId day meal prev) = length prev"
  by (simp add: toggleMeal_def)

lemma nth_toggleMeal:
  "i < length prev \<Longrightarrow> toggleMeal studentId day meal prev ! i =
     (if sid (prev ! i) \<noteq> studentId then prev ! i
      else (prev ! i)\<lparr>meals := fmupd day
              (setMeal (orNoMeals (fmlookup (meals (prev ! i)) day)) meal
                 (\<not> markAt (meals (prev ! i)) day meal)) (meals (prev ! i))\<rparr>)"
  by (simp add: toggleMeal_def Let_def markAt_orNoMeals)

text \<open>
  C4: for the student at any position \<open>i\<close> of the roster, toggling the same
  \<open>(studentId, day, meal)\<close> twice gives back every mark of that student, the toggled one
  included; one toggle flips the mark of a student with that id; and when that student
  has no entry for the day, one toggle creates the entry
  \<open>{S: false, T1: false, T2: false}\<close> with the named meal set to \<open>true\<close>.
\<close>

theorem toggleMeal_involution:
  assumes "i < length prev"
  shows "(\<forall>d m. markAt (meals (toggleMeal studentId day meal
                                  (toggleMeal studentId day meal prev) ! i)) d m
                = markAt (meals (prev ! i)) d m)
       \<and> (sid (prev ! i) = studentId \<longrightarrow>
            markAt (meals (toggleMeal studentId day meal prev ! i)) day meal
              = (\<not> markAt (meals (prev ! i)) day meal))
       \<and> (sid (prev ! i) = studentId \<and> fmlookup (meals (prev ! i)) day = None \<longrightarrow>
            fmlookup (meals (toggleMeal studentId day meal prev ! i)) day
              = Some (setMeal noMeals meal True))"
  using assms
  by (auto simp: nth_toggleMeal length_toggleMeal markAt_fmupd getMeal_setMeal orNoMeals_simps
        markAt_orNoMeals getMeal_noMeals)

theorem toggleMeal_involution_witness:
  "0 < length [\<lparr>sid = ''a'', name = ''Linh'', meals = fmempty\<rparr>]
   \<and> sid ([\<lparr>sid = ''a'', name = ''Linh'', meals = fmempty\<rparr>] ! 0) = ''a''
   \<and> fmlookup (meals ([\<lparr>sid = ''a'', name = ''Linh'', meals = fmempty\<rparr>] ! 0)) 3 = None
   \<and> (\<forall>d m. markAt (meals (toggleMeal ''a'' 3 T1
                 (toggleMeal ''a'' 3 T1 [\<lparr>sid = ''a'', name = ''Linh'', meals = fmempty\<rparr>]) ! 0)) d m
            = markAt (meals ([\<lparr>sid = ''a'', name = ''Linh'', meals = fmempty\<rparr>] ! 0)) d m)
   \<and> markAt (meals (toggleMeal ''a'' 3 T1
                 [\<lparr>sid = ''a'', name = ''Linh'', meals = fmempty\<rparr>] ! 0)) 3 T1
   \<and> fmlookup (meals (toggleMeal ''a'' 3 T1
                 [\<lparr>sid = ''a'', name = ''Linh'', meals = fmempty\<rparr>] ! 0)) 3
       = Some \<lparr>mS = False, mT1 = True, mT2 = False\<rparr>"
proof -
  have h: "0 < length [\<lparr>sid = ''a'', name = ''Linh'', meals = fmempty\<rparr>]" by simp
  from toggleMeal_involution [OF h, of "''a''" 3 T1]
  show ?thesis by (simp add: markAt_fmempty noMeals_def)
qed

section \<open>Explicit sync from the previous month\<close>

lemma findIndex_Some_iff:
  "findIndex P xs = Some i \<longleftrightarrow> i < length xs \<and> P (xs ! i) \<and> (\<forall>j<i. \<not> P (xs ! j))"
proof (induction xs arbitrary: i)
  case Nil
  then show ?case by simp
next
  case (Cons x xs)
  show ?case
  proof (cases "P x")
    case True
    then show ?thesis by (cases i) auto
  next
    case False
    show ?thesis
    proof (cases i)
      case 0
      with False show ?thesis by simp
    next
      case (Suc k)
      have "(\<forall>j<Suc k. \<not> P ((x # xs) ! j)) \<longleftrightarrow> (\<forall>j<k. \<not> P (xs ! j))"
        using False by (auto simp: less_Suc_eq_0_disj)
      with False Suc Cons.IH[of k] show ?thesis by auto
    qed
  qed
qed

lemma findIndex_None_iff: "findIndex P xs = None \<longleftrightarrow> (\<forall>x\<in>set xs. \<not> P x)"
  by (induction xs) auto

lemma findIndex_append_left:
  assumes "findIndex P xs = Some i"
  shows "findIndex P (xs @ ys) = Some i"
  using assms by (auto simp: findIndex_Some_iff nth_append)

lemma findIndex_cong_nth:
  assumes "length ys = length xs" "\<And>j. j < length xs \<Longrightarrow> Q (ys ! j) = P (xs ! j)"
  shows "findIndex Q ys = findIndex P xs"
proof (cases "findIndex P xs")
  case None
  then have "\<forall>j<length xs. \<not> P (xs ! j)" by (auto simp: findIndex_None_iff)
  then have "\<forall>y\<in>set ys. \<not> Q y" using assms by (metis in_set_conv_nth)
  then have "findIndex Q ys = None" by (simp add: findIndex_None_iff)
  then show ?thesis using None by simp
next
  case (Some i)
  then have "findIndex Q ys = Some i"
    using assms by (auto simp: findIndex_Some_iff)
  then show ?thesis using Some by simp
qed

lemma length_syncedPrefix: "length (syncedPrefix xs cur) = length cur"
  by (simp add: syncedPrefix_def)

lemma nth_syncedPrefix:
  "i < length cur \<Longrightarrow> syncedPrefix xs cur ! i =
     (cur ! i)\<lparr>name := (if findIndex (\<lambda>x. sid x = sid (cur ! i)) cur = Some i
                          then syncedName xs (cur ! i) else name (cur ! i))\<rparr>"
  by (simp add: syncedPrefix_def nth_enumerate_eq)

lemma syncedPrefix_Nil: "syncedPrefix [] cur = cur"
  by (rule nth_equalityI) (simp_all add: length_syncedPrefix nth_syncedPrefix syncedName_def)

lemma findIndex_syncedPrefix:
  "findIndex (\<lambda>ns. sid ns = k) (syncedPrefix xs cur) = findIndex (\<lambda>ns. sid ns = k) cur"
  by (rule findIndex_cong_nth) (simp_all add: length_syncedPrefix nth_syncedPrefix)

lemma syncStep_absent:
  assumes "sid x \<notin> sid ` set cur"
  shows "syncStep cur x (syncedPrefix xs cur @ syncedSuffix xs cur)
         = syncedPrefix (xs @ [x]) cur @ syncedSuffix (xs @ [x]) cur"
proof -
  have f: "find (\<lambda>cs. sid cs = sid x) cur = None"
    unfolding find_None_iff using assms by (metis imageI)
  have n: "syncedName (xs @ [x]) c = syncedName xs c" if "c \<in> set cur" for c
    using that assms by (auto simp: syncedName_def)
  have p: "syncedPrefix (xs @ [x]) cur = syncedPrefix xs cur"
    by (rule nth_equalityI) (simp_all add: length_syncedPrefix nth_syncedPrefix n)
  have s: "syncedSuffix (xs @ [x]) cur = syncedSuffix xs cur @ [x\<lparr>meals := fmempty\<rparr>]"
    using assms by (simp add: syncedSuffix_def)
  show ?thesis by (simp add: syncStep_def f p s)
qed

lemma syncStep_present:
  assumes "sid x \<in> sid ` set cur"
  shows "syncStep cur x (syncedPrefix xs cur @ syncedSuffix xs cur)
         = syncedPrefix (xs @ [x]) cur @ syncedSuffix (xs @ [x]) cur"
proof -
  obtain c where c: "find (\<lambda>cs. sid cs = sid x) cur = Some c"
    using assms by (cases "find (\<lambda>cs. sid cs = sid x) cur") (auto simp: find_None_iff)
  obtain k where k: "findIndex (\<lambda>ns. sid ns = sid x) cur = Some k"
    using assms by (cases "findIndex (\<lambda>ns. sid ns = sid x) cur") (auto simp: findIndex_None_iff)
  then have kl: "k < length cur" and ks: "sid (cur ! k) = sid x"
    by (auto simp: findIndex_Some_iff)
  have fi: "findIndex (\<lambda>ns. sid ns = sid x) (syncedPrefix xs cur @ syncedSuffix xs cur) = Some k"
    by (rule findIndex_append_left) (simp add: findIndex_syncedPrefix k)
  have s: "syncedSuffix (xs @ [x]) cur = syncedSuffix xs cur"
    using assms by (simp add: syncedSuffix_def)
  have p: "(syncedPrefix xs cur)[k := (syncedPrefix xs cur ! k)\<lparr>name := name x\<rparr>]
           = syncedPrefix (xs @ [x]) cur"
  proof (rule nth_equalityI)
    show "length ((syncedPrefix xs cur)[k := (syncedPrefix xs cur ! k)\<lparr>name := name x\<rparr>])
          = length (syncedPrefix (xs @ [x]) cur)"
      by (simp add: length_syncedPrefix)
  next
    fix j assume "j < length ((syncedPrefix xs cur)[k := (syncedPrefix xs cur ! k)\<lparr>name := name x\<rparr>])"
    then have jl: "j < length cur" by (simp add: length_syncedPrefix)
    show "(syncedPrefix xs cur)[k := (syncedPrefix xs cur ! k)\<lparr>name := name x\<rparr>] ! j
          = syncedPrefix (xs @ [x]) cur ! j"
    proof (cases "j = k")
      case True
      have "syncedName (xs @ [x]) (cur ! k) = name x"
        using ks by (simp add: syncedName_def)
      then show ?thesis
        using True kl k ks by (simp add: length_syncedPrefix nth_syncedPrefix)
    next
      case False
      have "syncedName (xs @ [x]) (cur ! j) = syncedName xs (cur ! j)"
        if "findIndex (\<lambda>y. sid y = sid (cur ! j)) cur = Some j"
      proof -
        have "sid (cur ! j) \<noteq> sid x"
        proof
          assume "sid (cur ! j) = sid x"
          with that k have "j = k" by simp
          with False show False by simp
        qed
        then show ?thesis by (auto simp: syncedName_def)
      qed
      then show ?thesis
        using False jl by (simp add: length_syncedPrefix nth_syncedPrefix)
    qed
  qed
  have "syncStep cur x (syncedPrefix xs cur @ syncedSuffix xs cur)
        = (syncedPrefix xs cur @ syncedSuffix xs cur)
            [k := ((syncedPrefix xs cur @ syncedSuffix xs cur) ! k)\<lparr>name := name x\<rparr>]"
    by (simp add: syncStep_def c fi)
  also have "\<dots> = (syncedPrefix xs cur)[k := (syncedPrefix xs cur ! k)\<lparr>name := name x\<rparr>]
                    @ syncedSuffix xs cur"
    using kl by (simp add: list_update_append nth_append length_syncedPrefix)
  finally show ?thesis by (simp add: p s)
qed

lemma syncStudents_closed_form:
  "syncStudents prevStudents prev = syncedPrefix prevStudents prev @ syncedSuffix prevStudents prev"
  unfolding syncStudents_def
proof (induction prevStudents rule: rev_induct)
  case Nil
  show ?case by (simp add: syncedPrefix_Nil syncedSuffix_def)
next
  case (snoc x xs)
  then show ?case
    by (cases "sid x \<in> sid ` set prev") (simp_all add: syncStep_absent syncStep_present)
qed


lemma syncedName_not_in_prior:
  "sid c \<notin> sid ` set xs \<Longrightarrow> syncedName xs c = name c"
proof -
  assume "sid c \<notin> sid ` set xs"
  then have "\<forall>x\<in>set xs. sid x \<noteq> sid c" by (metis imageI)
  then have "filter (\<lambda>ps. sid ps = sid c) xs = []"
    by (simp add: filter_empty_conv)
  then show ?thesis by (simp add: syncedName_def)
qed

lemma filter_distinct_key:
  "distinct (map f xs) \<Longrightarrow> x \<in> set xs \<Longrightarrow> filter (\<lambda>y. f y = f x) xs = [x]"
proof (induction xs)
  case Nil
  then show ?case by simp
next
  case (Cons a xs)
  show ?case
  proof (cases "a = x")
    case True
    have "f x \<notin> f ` set xs"
      using Cons.prems True by simp
    then have "\<forall>y\<in>set xs. f y \<noteq> f x" by (metis imageI)
    then have "filter (\<lambda>y. f y = f x) xs = []"
      by (simp add: filter_empty_conv)
    with True show ?thesis by simp
  next
    case False
    with Cons.prems have "x \<in> set xs" "f a \<noteq> f x" by auto
    with Cons show ?thesis by simp
  qed
qed

lemma syncedName_distinct:
  "distinct (map sid xs) \<Longrightarrow> ps \<in> set xs \<Longrightarrow> sid ps = sid c \<Longrightarrow> syncedName xs c = name ps"
  using filter_distinct_key[of sid xs ps] by (simp add: syncedName_def)

lemma findIndex_distinct:
  assumes "distinct (map f xs)" "i < length xs"
  shows "findIndex (\<lambda>y. f y = f (xs ! i)) xs = Some i"
proof -
  have "\<not> f (xs ! j) = f (xs ! i)" if "j < i" for j
  proof
    assume e: "f (xs ! j) = f (xs ! i)"
    from that assms have "j < length (map f xs)" "i < length (map f xs)" "j \<noteq> i" by auto
    with assms(1) have "map f xs ! j \<noteq> map f xs ! i"
      using nth_eq_iff_index_eq[of "map f xs" j i] by blast
    with e that assms show False by simp
  qed
  with assms show ?thesis by (simp add: findIndex_Some_iff)
qed

text \<open>
  C2: with a signed-in user who confirms, and an earlier row that holds a student list
  \<open>prevStudents\<close>: the result is the current roster, each student at its position
  with its id and meals unchanged, followed by the earlier students whose id no current
  student has, in their order and with empty meals. The name at position \<open>i\<close> is
  replaced by the earlier name when position \<open>i\<close> is the first one with that id (the
  last earlier student with the id gives the name); with unique ids on both sides that
  is: each current student whose id the earlier student \<open>ps\<close> has becomes itself with
  \<open>name := name ps\<close>. A student whose id no earlier student has is returned as it is.
  Without an earlier row (or when it has no student list) the roster is returned unchanged
  with the message of the nothing-found case, which differs from the one of success.
\<close>

theorem syncFromPreviousMonth_reconciles:
  "(students_col l = Some prevStudents \<longrightarrow>
      snd (syncFromPreviousMonth True True (Some l) prev) = Some SyncSucceeded
    \<and> length (fst (syncFromPreviousMonth True True (Some l) prev))
        = length prev + length (filter (\<lambda>ps. sid ps \<notin> sid ` set prev) prevStudents)
    \<and> drop (length prev) (fst (syncFromPreviousMonth True True (Some l) prev))
        = map (\<lambda>ps. ps\<lparr>meals := fmempty\<rparr>) (filter (\<lambda>ps. sid ps \<notin> sid ` set prev) prevStudents)
    \<and> (\<forall>i<length prev.
          sid (fst (syncFromPreviousMonth True True (Some l) prev) ! i) = sid (prev ! i)
        \<and> meals (fst (syncFromPreviousMonth True True (Some l) prev) ! i) = meals (prev ! i)
        \<and> name (fst (syncFromPreviousMonth True True (Some l) prev) ! i)
            = (if findIndex (\<lambda>c. sid c = sid (prev ! i)) prev = Some i
               then syncedName prevStudents (prev ! i) else name (prev ! i))
        \<and> (sid (prev ! i) \<notin> sid ` set prevStudents \<longrightarrow>
             fst (syncFromPreviousMonth True True (Some l) prev) ! i = prev ! i)
        \<and> (distinct (map sid prev) \<and> distinct (map sid prevStudents) \<longrightarrow>
             (\<forall>ps\<in>set prevStudents. sid ps = sid (prev ! i) \<longrightarrow>
                fst (syncFromPreviousMonth True True (Some l) prev) ! i
                  = (prev ! i)\<lparr>name := name ps\<rparr>))))
   \<and> syncFromPreviousMonth True True None prev = (prev, Some SyncNothingFound)
   \<and> (students_col l = None \<longrightarrow>
        syncFromPreviousMonth True True (Some l) prev = (prev, Some SyncNothingFound))"
proof -
  have none: "syncFromPreviousMonth True True None prev = (prev, Some SyncNothingFound)"
    by (simp add: syncFromPreviousMonth_def)
  have nostud: "syncFromPreviousMonth True True (Some l) prev = (prev, Some SyncNothingFound)"
    if "students_col l = None"
    using that by (simp add: syncFromPreviousMonth_def)
  have main: "?thesis" if sc: "students_col l = Some prevStudents"
  proof -
    let ?r = "fst (syncFromPreviousMonth True True (Some l) prev)"
    have r: "?r = syncedPrefix prevStudents prev @ syncedSuffix prevStudents prev"
      using sc by (simp add: syncFromPreviousMonth_def syncStudents_closed_form)
    have a: "snd (syncFromPreviousMonth True True (Some l) prev) = Some SyncSucceeded"
      using sc by (simp add: syncFromPreviousMonth_def)
    have b: "length ?r = length prev + length (filter (\<lambda>ps. sid ps \<notin> sid ` set prev) prevStudents)"
      by (simp add: r length_syncedPrefix syncedSuffix_def)
    have c: "drop (length prev) ?r
        = map (\<lambda>ps. ps\<lparr>meals := fmempty\<rparr>) (filter (\<lambda>ps. sid ps \<notin> sid ` set prev) prevStudents)"
      by (simp add: r length_syncedPrefix syncedSuffix_def)
    have n: "?r ! i = (prev ! i)\<lparr>name := (if findIndex (\<lambda>c. sid c = sid (prev ! i)) prev = Some i
               then syncedName prevStudents (prev ! i) else name (prev ! i))\<rparr>"
      if "i < length prev" for i
      using that by (simp add: r nth_append length_syncedPrefix nth_syncedPrefix)
    have d: "sid (?r ! i) = sid (prev ! i) \<and> meals (?r ! i) = meals (prev ! i)
        \<and> name (?r ! i) = (if findIndex (\<lambda>c. sid c = sid (prev ! i)) prev = Some i
               then syncedName prevStudents (prev ! i) else name (prev ! i))"
      if "i < length prev" for i
      by (simp add: n[OF that])
    have e: "?r ! i = prev ! i"
      if "i < length prev" "sid (prev ! i) \<notin> sid ` set prevStudents" for i
      by (simp add: n[OF that(1)] syncedName_not_in_prior[OF that(2)])
    have f: "?r ! i = (prev ! i)\<lparr>name := name ps\<rparr>"
      if "i < length prev" "distinct (map sid prev)" "distinct (map sid prevStudents)"
         "ps \<in> set prevStudents" "sid ps = sid (prev ! i)" for i ps
      by (simp add: n[OF that(1)] findIndex_distinct[OF that(2) that(1)]
            syncedName_distinct[OF that(3) that(4) that(5)])
    show ?thesis
      using a b c d e f none sc by auto
  qed
  show ?thesis
  proof (cases "students_col l")
    case None
    with none nostud show ?thesis by simp
  next
    case (Some ps)
    show ?thesis
    proof (cases "ps = prevStudents")
      case True
      with Some main show ?thesis by simp
    next
      case False
      with Some none show ?thesis by simp
    qed
  qed
qed


theorem syncFromPreviousMonth_reconciles_witness:
  "students_col \<lparr>school_name = None, class_name = None, teacher_name = None,
           location_col = None,
           students_col = Some [\<lparr>sid = ''a'', name = ''Linh Nguyen'', meals = fmempty\<rparr>,
              \<lparr>sid = ''b'', name = ''Mai'',
               meals = fmupd 2 \<lparr>mS = True, mT1 = True, mT2 = True\<rparr> fmempty\<rparr>],
           standard_meals = None\<rparr>
     = Some [\<lparr>sid = ''a'', name = ''Linh Nguyen'', meals = fmempty\<rparr>,
              \<lparr>sid = ''b'', name = ''Mai'',
               meals = fmupd 2 \<lparr>mS = True, mT1 = True, mT2 = True\<rparr> fmempty\<rparr>]
   \<and> snd (syncFromPreviousMonth True True
        (Some \<lparr>school_name = None, class_name = None, teacher_name = None,
           location_col = None,
           students_col = Some [\<lparr>sid = ''a'', name = ''Linh Nguyen'', meals = fmempty\<rparr>,
              \<lparr>sid = ''b'', name = ''Mai'',
               meals = fmupd 2 \<lparr>mS = True, mT1 = True, mT2 = True\<rparr> fmempty\<rparr>],
           standard_meals = None\<rparr>)
        [\<lparr>sid = ''a'', name = ''Linh'',
           meals = fmupd 1 \<lparr>mS = True, mT1 = False, mT2 = False\<rparr> fmempty\<rparr>,
          \<lparr>sid = ''z'', name = ''Hoa'',
           meals = fmupd 3 \<lparr>mS = False, mT1 = True, mT2 = False\<rparr> fmempty\<rparr>]) = Some SyncSucceeded
   \<and> length (fst (syncFromPreviousMonth True True
        (Some \<lparr>school_name = None, class_name = None, teacher_name = None,
           location_col = None,
           students_col = Some [\<lparr>sid = ''a'', name = ''Linh Nguyen'', meals = fmempty\<rparr>,
              \<lparr>sid = ''b'', name = ''Mai'',
               meals = fmupd 2 \<lparr>mS = True, mT1 = True, mT2 = True\<rparr> fmempty\<rparr>],
           standard_meals = None\<rparr>)
        [\<lparr>sid = ''a'', name = ''Linh'',
           meals = fmupd 1 \<lparr>mS = True, mT1 = False, mT2 = False\<rparr> fmempty\<rparr>,
          \<lparr>sid = ''z'', name = ''Hoa'',
           meals = fmupd 3 \<lparr>mS = False, mT1 = True, mT2 = False\<rparr> fmempty\<rparr>])) = 3
   \<and> drop 2 (fst (syncFromPreviousMonth True True
        (Some \<lparr>school_name = None, class_name = None, teacher_name = None,
           location_col = None,
           students_col = Some [\<lparr>sid = ''a'', name = ''Linh Nguyen'', meals = fmempty\<rparr>,
              \<lparr>sid = ''b'', name = ''Mai'',
               meals = fmupd 2 \<lparr>mS = True, mT1 = True, mT2 = True\<rparr> fmempty\<rparr>],
           standard_meals = None\<rparr>)
        [\<lparr>sid = ''a'', name = ''Linh'',
           meals = fmupd 1 \<lparr>mS = True, mT1 = False, mT2 = False\<rparr> fmempty\<rparr>,
          \<lparr>sid = ''z'', name = ''Hoa'',
           meals = fmupd 3 \<lparr>mS = False, mT1 = True, mT2 = False\<rparr> fmempty\<rparr>]))
       = [\<lparr>sid = ''b'', name = ''Mai'', meals = fmempty\<rparr>]
   \<and> fst (syncFromPreviousMonth True True
        (Some \<lparr>school_name = None, class_name = None, teacher_name = None,
           location_col = None,
           students_col = Some [\<lparr>sid = ''a'', name = ''Linh Nguyen'', meals = fmempty\<rparr>,
              \<lparr>sid = ''b'', name = ''Mai'',
               meals = fmupd 2 \<lparr>mS = True, mT1 = True, mT2 = True\<rparr> fmempty\<rparr>],
           standard_meals = None\<rparr>)
        [\<lparr>sid = ''a'', name = ''Linh'',
           meals = fmupd 1 \<lparr>mS = True, mT1 = False, mT2 = False\<rparr> fmempty\<rparr>,
          \<lparr>sid = ''z'', name = ''Hoa'',
           meals = fmupd 3 \<lparr>mS = False, mT1 = True, mT2 = False\<rparr> fmempty\<rparr>]) ! 0
       = \<lparr>sid = ''a'', name = ''Linh Nguyen'',
          meals = fmupd 1 \<lparr>mS = True, mT1 = False, mT2 = False\<rparr> fmempty\<rparr>
   \<and> fst (syncFromPreviousMonth True True
        (Some \<lparr>school_name = None, class_name = None, teacher_name = None,
           location_col = None,
           students_col = Some [\<lparr>sid = ''a'', name = ''Linh Nguyen'', meals = fmempty\<rparr>,
              \<lparr>sid = ''b'', name = ''Mai'',
               meals = fmupd 2 \<lparr>mS = True, mT1 = True, mT2 = True\<rparr> fmempty\<rparr>],
           standard_meals = None\<rparr>)
        [\<lparr>sid = ''a'', name = ''Linh'',
           meals = fmupd 1 \<lparr>mS = True, mT1 = False, mT2 = False\<rparr> fmempty\<rparr>,
          \<lparr>sid = ''z'', name = ''Hoa'',
           meals = fmupd 3 \<lparr>mS = False, mT1 = True, mT2 = False\<rparr> fmempty\<rparr>]) ! 1
       = \<lparr>sid = ''z'', name = ''Hoa'',
          meals = fmupd 3 \<lparr>mS = False, mT1 = True, mT2 = False\<rparr> fmempty\<rparr>
   \<and> syncFromPreviousMonth True True None
        [\<lparr>sid = ''a'', name = ''Linh'',
           meals = fmupd 1 \<lparr>mS = True, mT1 = False, mT2 = False\<rparr> fmempty\<rparr>,
          \<lparr>sid = ''z'', name = ''Hoa'',
           meals = fmupd 3 \<lparr>mS = False, mT1 = True, mT2 = False\<rparr> fmempty\<rparr>]
       = ([\<lparr>sid = ''a'', name = ''Linh'',
           meals = fmupd 1 \<lparr>mS = True, mT1 = False, mT2 = False\<rparr> fmempty\<rparr>,
          \<lparr>sid = ''z'', name = ''Hoa'',
           meals = fmupd 3 \<lparr>mS = False, mT1 = True, mT2 = False\<rparr> fmempty\<rparr>], Some SyncNothingFound)
   \<and> syncFromPreviousMonth True True
        (Some \<lparr>school_name = None, class_name = None, teacher_name = None,
           location_col = None, students_col = None, standard_meals = None\<rparr>)
        [\<lparr>sid = ''a'', name = ''Linh'',
           meals = fmupd 1 \<lparr>mS = True, mT1 = False, mT2 = False\<rparr> fmempty\<rparr>,
          \<lparr>sid = ''z'', name = ''Hoa'',
           meals = fmupd 3 \<lparr>mS = False, mT1 = True, mT2 = False\<rparr> fmempty\<rparr>]
       = ([\<lparr>sid = ''a'', name = ''Linh'',
           meals = fmupd 1 \<lparr>mS = True, mT1 = False, mT2 = False\<rparr> fmempty\<rparr>,
          \<lparr>sid = ''z'', name = ''Hoa'',
           meals = fmupd 3 \<lparr>mS = False, mT1 = True, mT2 = False\<rparr> fmempty\<rparr>], Some SyncNothingFound)"
proof -
  let ?ps = "[\<lparr>sid = ''a'', name = ''Linh Nguyen'', meals = fmempty\<rparr>,
              \<lparr>sid = ''b'', name = ''Mai'',
               meals = fmupd 2 \<lparr>mS = True, mT1 = True, mT2 = True\<rparr> fmempty\<rparr>]"
  let ?l = "\<lparr>school_name = None, class_name = None, teacher_name = None,
           location_col = None,
           students_col = Some [\<lparr>sid = ''a'', name = ''Linh Nguyen'', meals = fmempty\<rparr>,
              \<lparr>sid = ''b'', name = ''Mai'',
               meals = fmupd 2 \<lparr>mS = True, mT1 = True, mT2 = True\<rparr> fmempty\<rparr>],
           standard_meals = None\<rparr>"
  let ?l1 = "\<lparr>school_name = None, class_name = None, teacher_name = None,
           location_col = None, students_col = None, standard_meals = None\<rparr>"
  let ?prev = "[\<lparr>sid = ''a'', name = ''Linh'',
           meals = fmupd 1 \<lparr>mS = True, mT1 = False, mT2 = False\<rparr> fmempty\<rparr>,
          \<lparr>sid = ''z'', name = ''Hoa'',
           meals = fmupd 3 \<lparr>mS = False, mT1 = True, mT2 = False\<rparr> fmempty\<rparr>]"
  have h: "students_col ?l = Some ?ps" by simp
  have h1: "students_col ?l1 = None" by simp
  have d: "distinct (map sid ?prev) \<and> distinct (map sid ?ps)" by simp
  from syncFromPreviousMonth_reconciles [of ?l ?ps ?prev]
    syncFromPreviousMonth_reconciles [of ?l1 ?ps ?prev] h h1 d
  show ?thesis by (simp add: image_iff numeral_2_eq_2 all_less_two)
qed

section \<open>Automatic fill by weekday\<close>

lemma getDay_less: "getDay d < 7"
  by (simp add: getDay_def)

lemma getDayOfWeek_cases:
  "(getDayOfWeek day month year = ''CN'') = (getDay (newDate year month (int day)) = 0)"
  "(getDayOfWeek day month year = ''6'') = (getDay (newDate year month (int day)) = 5)"
  "(getDayOfWeek day month year = ''7'') = (getDay (newDate year month (int day)) = 6)"
proof -
  have *: "n < 7 \<Longrightarrow> n = 0 \<or> n = 1 \<or> n = 2 \<or> n = 3 \<or> n = 4 \<or> n = 5 \<or> n = 6" for n :: nat
    by arith
  have **: "(DAYS_OF_WEEK ! n = ''CN'') = (n = 0)" "(DAYS_OF_WEEK ! n = ''6'') = (n = 5)"
     "(DAYS_OF_WEEK ! n = ''7'') = (n = 6)" if "n < 7" for n
    using *[OF that] by (auto simp: DAYS_OF_WEEK_def)
  show "(getDayOfWeek day month year = ''CN'') = (getDay (newDate year month (int day)) = 0)"
    unfolding getDayOfWeek_def by (rule **(1)[OF getDay_less])
  show "(getDayOfWeek day month year = ''6'') = (getDay (newDate year month (int day)) = 5)"
    unfolding getDayOfWeek_def by (rule **(2)[OF getDay_less])
  show "(getDayOfWeek day month year = ''7'') = (getDay (newDate year month (int day)) = 6)"
    unfolding getDayOfWeek_def by (rule **(3)[OF getDay_less])
qed

lemma fmlookup_autoFillDay:
  "fmlookup (autoFillDay month year day m) d =
     (if d \<noteq> day then fmlookup m d
      else if getDay (newDate year month (int day)) = 6 \<or> getDay (newDate year month (int day)) = 0
           then fmlookup m d
      else if getDay (newDate year month (int day)) = 5
           then Some \<lparr>mS = True, mT1 = True, mT2 = False\<rparr>
      else Some \<lparr>mS = True, mT1 = True, mT2 = True\<rparr>)"
  by (simp add: autoFillDay_def Let_def getDayOfWeek_cases)

declare autoFillLoop.simps [simp del]

lemma fmlookup_autoFillLoop:
  "fmlookup (autoFillLoop month year n day m) d =
     (if day \<le> d \<and> d \<le> n then fmlookup (autoFillDay month year d m) d else fmlookup m d)"
proof (induction month year n day m rule: autoFillLoop.induct)
  case (1 month year n day m)
  show ?case
  proof (cases "day \<le> n")
    case True
    then show ?thesis
      using "1.IH"[OF True]
      by (subst autoFillLoop.simps) (auto simp: fmlookup_autoFillDay)
  next
    case False
    then show ?thesis by (subst autoFillLoop.simps) auto
  qed
qed

text \<open>
  C3: after a confirmed automatic fill, the student at each position keeps id and name,
  and its entry for day \<open>d\<close> is: the entry it had (or none, if it had none) when
  \<open>d\<close> is outside \<open>1..daysInMonth\<close> or falls on a Saturday (\<open>getDay\<close> 6) or a Sunday
  (\<open>getDay\<close> 0); \<open>{S: true, T1: true, T2: false}\<close> on a Friday (\<open>getDay\<close> 5); and
  \<open>{S: true, T1: true, T2: true}\<close> on the other weekdays, whatever the entry was before.
\<close>

theorem autoFillMeals_by_weekday:
  assumes "i < length prev"
  shows "sid (autoFillMeals True month year prev ! i) = sid (prev ! i)
       \<and> name (autoFillMeals True month year prev ! i) = name (prev ! i)
       \<and> fmlookup (meals (autoFillMeals True month year prev ! i)) d =
           (if d < 1 \<or> getDaysInMonth month year < d then fmlookup (meals (prev ! i)) d
            else if getDay (newDate year month (int d)) = 6
                  \<or> getDay (newDate year month (int d)) = 0
                 then fmlookup (meals (prev ! i)) d
            else if getDay (newDate year month (int d)) = 5
                 then Some \<lparr>mS = True, mT1 = True, mT2 = False\<rparr>
            else Some \<lparr>mS = True, mT1 = True, mT2 = True\<rparr>)"
  using assms
  by (auto simp: autoFillMeals_def fmlookup_autoFillLoop fmlookup_autoFillDay)

theorem autoFillMeals_by_weekday_witness:
  "0 < length [\<lparr>sid = ''a'', name = ''Linh'',
                 meals = fmupd 5 \<lparr>mS = False, mT1 = False, mT2 = True\<rparr>
                        (fmupd 6 \<lparr>mS = True, mT1 = False, mT2 = False\<rparr> fmempty)\<rparr>]
   \<and> getDaysInMonth 4 2023 = 31
   \<and> getDay (newDate 2023 4 5) = 5 \<and> getDay (newDate 2023 4 6) = 6
   \<and> getDay (newDate 2023 4 7) = 0 \<and> getDay (newDate 2023 4 8) = 1
   \<and> fmlookup (meals (autoFillMeals True 4 2023
         [\<lparr>sid = ''a'', name = ''Linh'',
           meals = fmupd 5 \<lparr>mS = False, mT1 = False, mT2 = True\<rparr>
                  (fmupd 6 \<lparr>mS = True, mT1 = False, mT2 = False\<rparr> fmempty)\<rparr>] ! 0)) 5
       = Some \<lparr>mS = True, mT1 = True, mT2 = False\<rparr>
   \<and> fmlookup (meals (autoFillMeals True 4 2023
         [\<lparr>sid = ''a'', name = ''Linh'',
           meals = fmupd 5 \<lparr>mS = False, mT1 = False, mT2 = True\<rparr>
                  (fmupd 6 \<lparr>mS = True, mT1 = False, mT2 = False\<rparr> fmempty)\<rparr>] ! 0)) 6
       = Some \<lparr>mS = True, mT1 = False, mT2 = False\<rparr>
   \<and> fmlookup (meals (autoFillMeals True 4 2023
         [\<lparr>sid = ''a'', name = ''Linh'',
           meals = fmupd 5 \<lparr>mS = False, mT1 = False, mT2 = True\<rparr>
                  (fmupd 6 \<lparr>mS = True, mT1 = False, mT2 = False\<rparr> fmempty)\<rparr>] ! 0)) 7
       = None
   \<and> fmlookup (meals (autoFillMeals True 4 2023
         [\<lparr>sid = ''a'', name = ''Linh'',
           meals = fmupd 5 \<lparr>mS = False, mT1 = False, mT2 = True\<rparr>
                  (fmupd 6 \<lparr>mS = True, mT1 = False, mT2 = False\<rparr> fmempty)\<rparr>] ! 0)) 8
       = Some \<lparr>mS = True, mT1 = True, mT2 = True\<rparr>"
proof -
  let ?r = "[\<lparr>sid = ''a'', name = ''Linh'',
                 meals = fmupd 5 \<lparr>mS = False, mT1 = False, mT2 = True\<rparr>
                        (fmupd 6 \<lparr>mS = True, mT1 = False, mT2 = False\<rparr> fmempty)\<rparr>]"
  have h: "0 < length ?r" by simp
  have c: "getDaysInMonth 4 2023 = 31"
    "getDay (newDate 2023 4 5) = 5" "getDay (newDate 2023 4 6) = 6"
    "getDay (newDate 2023 4 7) = 0" "getDay (newDate 2023 4 8) = 1"
    by code_simp+
  note t = autoFillMeals_by_weekday [OF h, of 4 2023]
  from t [of 5] t [of 6] t [of 7] t [of 8] show ?thesis
    by (simp add: c)
qed

section \<open>Roster order\<close>

lemma length_pasteColumn: "length (pasteColumn cb day meal prev) = length prev"
  by (simp add: pasteColumn_def split: option.splits)

lemma nth_pasteColumn:
  "i < length prev \<Longrightarrow> pasteColumn (Some cb) day meal prev ! i =
     (prev ! i)\<lparr>meals := fmupd day
        (setMeal (orNoMeals (fmlookup (meals (prev ! i)) day)) meal (clipAt cb i))
        (meals (prev ! i))\<rparr>"
  by (simp add: pasteColumn_def nth_enumerate_eq Let_def)

lemma map_sid_pasteColumn: "map sid (pasteColumn cb day meal prev) = map sid prev"
proof (cases cb)
  case None
  then show ?thesis by (simp add: pasteColumn_def)
next
  case (Some c)
  show ?thesis
    by (rule nth_equalityI) (simp_all add: length_pasteColumn Some nth_pasteColumn)
qed

lemma map_sid_syncedPrefix: "map sid (syncedPrefix xs cur) = map sid cur"
  by (rule nth_equalityI) (simp_all add: length_syncedPrefix nth_syncedPrefix)

lemma map_sid_syncStudents:
  "take (length prev) (map sid (syncStudents prevStudents prev)) = map sid prev"
  by (simp add: syncStudents_closed_form map_sid_syncedPrefix length_syncedPrefix)

text \<open>
  C8: each bulk edit returns a roster with the same ids in the same positions: toggle,
  row paste, paste to all, column fill, clear and paste, clearing a day or the month, the
  automatic fill and renaming, whatever their arguments and whether or not the user
  confirms. The explicit sync keeps the ids of the current roster at their positions and
  only appends after them.
\<close>

theorem roster_order_preserved:
  "map sid (toggleMeal studentId day meal prev) = map sid prev
   \<and> map sid (pasteMeals clipboard studentId prev) = map sid prev
   \<and> map sid (pasteToAll clipboard confirmed prev) = map sid prev
   \<and> map sid (fillColumn day meal prev) = map sid prev
   \<and> map sid (clearColumn day meal prev) = map sid prev
   \<and> map sid (pasteColumn columnClipboard day meal prev) = map sid prev
   \<and> map sid (clearDay confirmed day prev) = map sid prev
   \<and> map sid (clearMonth confirmed prev) = map sid prev
   \<and> map sid (autoFillMeals confirmed month year prev) = map sid prev
   \<and> map sid (updateStudentName studentId newName prev) = map sid prev
   \<and> take (length prev) (map sid (fst (syncFromPreviousMonth user confirmed latestData prev)))
       = map sid prev"
proof -
  have 1: "map sid (toggleMeal studentId day meal prev) = map sid prev"
    by (simp add: toggleMeal_def Let_def)
  have 2: "map sid (pasteMeals clipboard studentId prev) = map sid prev"
    by (simp add: pasteMeals_def split: option.splits)
  have 3: "map sid (pasteToAll clipboard confirmed prev) = map sid prev"
    by (simp add: pasteToAll_def split: option.splits)
  have 4: "map sid (fillColumn day meal prev) = map sid prev"
    by (simp add: fillColumn_def Let_def)
  have 5: "map sid (clearColumn day meal prev) = map sid prev"
    by (simp add: clearColumn_def Let_def)
  have 6: "map sid (clearDay confirmed day prev) = map sid prev"
    by (simp add: clearDay_def)
  have 7: "map sid (clearMonth confirmed prev) = map sid prev"
    by (simp add: clearMonth_def)
  have 8: "map sid (autoFillMeals confirmed month year prev) = map sid prev"
    by (simp add: autoFillMeals_def)
  have 9: "map sid (updateStudentName studentId newName prev) = map sid prev"
    by (simp add: updateStudentName_def)
  have 10: "take (length prev) (map sid (fst (syncFromPreviousMonth user confirmed latestData prev)))
       = map sid prev"
    by (simp add: syncFromPreviousMonth_def map_sid_syncStudents split: option.splits)
  from 1 2 3 4 5 6 7 8 9 10 map_sid_pasteColumn show ?thesis by simp
qed

theorem roster_order_preserved_witness:
  "map sid (toggleMeal ''b'' 1 S
      [\<lparr>sid = ''a'', name = ''Linh'', meals = fmempty\<rparr>,
       \<lparr>sid = ''b'', name = ''Mai'', meals = fmempty\<rparr>]) = [''a'', ''b'']
   \<and> map sid (pasteToAll (Some fmempty) True
      [\<lparr>sid = ''a'', name = ''Linh'', meals = fmempty\<rparr>,
       \<lparr>sid = ''b'', name = ''Mai'', meals = fmempty\<rparr>]) = [''a'', ''b'']
   \<and> map sid (pasteColumn (Some [True]) 1 S
      [\<lparr>sid = ''a'', name = ''Linh'', meals = fmempty\<rparr>,
       \<lparr>sid = ''b'', name = ''Mai'', meals = fmempty\<rparr>]) = [''a'', ''b'']
   \<and> map sid (autoFillMeals True 4 2023
      [\<lparr>sid = ''a'', name = ''Linh'', meals = fmempty\<rparr>,
       \<lparr>sid = ''b'', name = ''Mai'', meals = fmempty\<rparr>]) = [''a'', ''b'']
   \<and> take 2 (map sid (fst (syncFromPreviousMonth True True
        (Some \<lparr>school_name = None, class_name = None, teacher_name = None,
               location_col = None,
               students_col = Some [\<lparr>sid = ''c'', name = ''Lan'', meals = fmempty\<rparr>,
                                    \<lparr>sid = ''b'', name = ''Mai Anh'', meals = fmempty\<rparr>],
               standard_meals = None\<rparr>)
      [\<lparr>sid = ''a'', name = ''Linh'', meals = fmempty\<rparr>,
       \<lparr>sid = ''b'', name = ''Mai'', meals = fmempty\<rparr>]))) = [''a'', ''b'']"
proof -
  let ?r = "[\<lparr>sid = ''a'', name = ''Linh'', meals = fmempty\<rparr>,
             \<lparr>sid = ''b'', name = ''Mai'', meals = fmempty\<rparr>]"
  let ?l = "Some \<lparr>school_name = None, class_name = None, teacher_name = None,
               location_col = None,
               students_col = Some [\<lparr>sid = ''c'', name = ''Lan'', meals = fmempty\<rparr>,
                                    \<lparr>sid = ''b'', name = ''Mai Anh'', meals = fmempty\<rparr>],
               standard_meals = None\<rparr>"
  from roster_order_preserved [where prev = ?r and studentId = "''b''" and day = 1 and meal = S
      and clipboard = "Some fmempty" and confirmed = True and columnClipboard = "Some [True]"
      and month = 4 and year = 2023 and user = True and latestData = ?l
      and newName = "''Mai Anh''"]
  show ?thesis by (simp add: numeral_2_eq_2)
qed

section \<open>Column clipboard round trip\<close>

lemma fmupd_same: "fmlookup m k = Some v \<Longrightarrow> fmupd k v m = m"
  by (rule fmap_ext) auto

lemma clipAt_copy:
  "i < length roster \<Longrightarrow> clipAt (map (\<lambda>s. markAt (meals s) d m) roster) i = markAt (meals (roster ! i)) d m"
  by (simp add: clipAt_def)

text \<open>
  C7, as the code has it: copying column \<open>(d, m)\<close> and pasting it back on the same
  roster keeps the length of the roster and, for the student at each position, the id,
  the name and every mark of every day and meal. A student that has an entry for day
  \<open>d\<close> is returned unchanged; a student without one gets the explicit entry
  \<open>{S: false, T1: false, T2: false}\<close> for \<open>d\<close> and keeps all other entries.
\<close>

theorem copy_paste_column_keeps_marks:
  assumes "i < length roster"
  shows "length (pasteColumn (copyColumn d m roster) d m roster) = length roster
       \<and> sid (pasteColumn (copyColumn d m roster) d m roster ! i) = sid (roster ! i)
       \<and> name (pasteColumn (copyColumn d m roster) d m roster ! i) = name (roster ! i)
       \<and> (\<forall>d' m'. markAt (meals (pasteColumn (copyColumn d m roster) d m roster ! i)) d' m'
                    = markAt (meals (roster ! i)) d' m')
       \<and> (fmlookup (meals (roster ! i)) d \<noteq> None \<longrightarrow>
            pasteColumn (copyColumn d m roster) d m roster ! i = roster ! i)
       \<and> (fmlookup (meals (roster ! i)) d = None \<longrightarrow>
            meals (pasteColumn (copyColumn d m roster) d m roster ! i)
              = fmupd d noMeals (meals (roster ! i)))"
proof -
  have n: "pasteColumn (copyColumn d m roster) d m roster ! i
           = (roster ! i)\<lparr>meals := fmupd d (orNoMeals (fmlookup (meals (roster ! i)) d))
                                     (meals (roster ! i))\<rparr>"
    using assms
    by (simp add: copyColumn_def nth_pasteColumn clipAt_copy)
       (simp add: markAt_orNoMeals setMeal_getMeal)
  show ?thesis
    using assms
    by (auto simp: n length_pasteColumn markAt_fmupd markAt_orNoMeals orNoMeals_simps fmupd_same)
qed

theorem copy_paste_column_keeps_marks_witness:
  "1 < length [\<lparr>sid = ''a'', name = ''Linh'',
                 meals = fmupd 1 \<lparr>mS = True, mT1 = False, mT2 = False\<rparr> fmempty\<rparr>,
                \<lparr>sid = ''b'', name = ''Mai'', meals = fmempty\<rparr>]
   \<and> fmlookup (meals ([\<lparr>sid = ''a'', name = ''Linh'',
                 meals = fmupd 1 \<lparr>mS = True, mT1 = False, mT2 = False\<rparr> fmempty\<rparr>,
                \<lparr>sid = ''b'', name = ''Mai'', meals = fmempty\<rparr>] ! 0)) 1 \<noteq> None
   \<and> fmlookup (meals ([\<lparr>sid = ''a'', name = ''Linh'',
                 meals = fmupd 1 \<lparr>mS = True, mT1 = False, mT2 = False\<rparr> fmempty\<rparr>,
                \<lparr>sid = ''b'', name = ''Mai'', meals = fmempty\<rparr>] ! 1)) 1 = None
   \<and> (pasteColumn (copyColumn 1 S
               [\<lparr>sid = ''a'', name = ''Linh'',
                 meals = fmupd 1 \<lparr>mS = True, mT1 = False, mT2 = False\<rparr> fmempty\<rparr>,
                \<lparr>sid = ''b'', name = ''Mai'', meals = fmempty\<rparr>]) 1 S
               [\<lparr>sid = ''a'', name = ''Linh'',
                 meals = fmupd 1 \<lparr>mS = True, mT1 = False, mT2 = False\<rparr> fmempty\<rparr>,
                \<lparr>sid = ''b'', name = ''Mai'', meals = fmempty\<rparr>]) ! 0
       = \<lparr>sid = ''a'', name = ''Linh'',
          meals = fmupd 1 \<lparr>mS = True, mT1 = False, mT2 = False\<rparr> fmempty\<rparr>
   \<and> meals ((pasteColumn (copyColumn 1 S
               [\<lparr>sid = ''a'', name = ''Linh'',
                 meals = fmupd 1 \<lparr>mS = True, mT1 = False, mT2 = False\<rparr> fmempty\<rparr>,
                \<lparr>sid = ''b'', name = ''Mai'', meals = fmempty\<rparr>]) 1 S
               [\<lparr>sid = ''a'', name = ''Linh'',
                 meals = fmupd 1 \<lparr>mS = True, mT1 = False, mT2 = False\<rparr> fmempty\<rparr>,
                \<lparr>sid = ''b'', name = ''Mai'', meals = fmempty\<rparr>]) ! 1)
       = fmupd 1 \<lparr>mS = False, mT1 = False, mT2 = False\<rparr> fmempty
   \<and> (\<forall>d' m'. markAt (meals ((pasteColumn (copyColumn 1 S
               [\<lparr>sid = ''a'', name = ''Linh'',
                 meals = fmupd 1 \<lparr>mS = True, mT1 = False, mT2 = False\<rparr> fmempty\<rparr>,
                \<lparr>sid = ''b'', name = ''Mai'', meals = fmempty\<rparr>]) 1 S
               [\<lparr>sid = ''a'', name = ''Linh'',
                 meals = fmupd 1 \<lparr>mS = True, mT1 = False, mT2 = False\<rparr> fmempty\<rparr>,
                \<lparr>sid = ''b'', name = ''Mai'', meals = fmempty\<rparr>]) ! 1)) d' m' = False)"
proof -
  let ?r = "[\<lparr>sid = ''a'', name = ''Linh'',
                 meals = fmupd 1 \<lparr>mS = True, mT1 = False, mT2 = False\<rparr> fmempty\<rparr>,
                \<lparr>sid = ''b'', name = ''Mai'', meals = fmempty\<rparr>]"
  have h: "1 < length ?r" and h0: "0 < length ?r" by simp_all
  from copy_paste_column_keeps_marks [OF h, of 1 S] copy_paste_column_keeps_marks [OF h0, of 1 S]
  show ?thesis
    by (simp add: markAt_fmempty markAt_fmupd noMeals_def getMeal_noMeals [unfolded noMeals_def])
qed

text \<open>
  The round trip is not the identity on the stored data: for a student without an entry
  for the day, the pasted roster differs from the original one.
\<close>

theorem copy_paste_column_not_identity:
  "pasteColumn (copyColumn 1 S [\<lparr>sid = ''a'', name = ''Linh'', meals = fmempty\<rparr>]) 1 S
       [\<lparr>sid = ''a'', name = ''Linh'', meals = fmempty\<rparr>]
     \<noteq> [\<lparr>sid = ''a'', name = ''Linh'', meals = fmempty\<rparr>]"
  by code_simp

section \<open>Totals\<close>

lemma fold_countDay:
  "fold countDay vs (a, b, c) =
     (a + length (filter mS vs), b + length (filter mT1 vs), c + length (filter mT2 vs))"
  by (induction vs arbitrary: a b c) (simp_all add: countDay_def)

lemma filter_map_filter_lookup:
  "length (filter P (List.map_filter (fmlookup m) ks))
     = length (filter (\<lambda>k. case fmlookup m k of None \<Rightarrow> False | Some v \<Rightarrow> P v) ks)"
  by (induction ks) (simp_all add: List.map_filter_simps split: option.splits)

lemma distinct_sorted_list_of_fset: "distinct (sorted_list_of_fset A)"
  by (simp add: sorted_list_of_fset.rep_eq)

lemma count_objectValues:
  "length (filter (\<lambda>dm. getMeal dm meal) (objectValues m)) = card {d. markAt m d meal}"
proof -
  have "length (filter (\<lambda>dm. getMeal dm meal) (objectValues m))
        = length (filter (\<lambda>k. markAt m k meal) (sorted_list_of_fset (fmdom m)))"
    by (simp add: objectValues_def filter_map_filter_lookup markAt_def)
  also have "\<dots> = card ({d. markAt m d meal} \<inter> fset (fmdom m))"
    by (simp add: distinct_length_filter distinct_sorted_list_of_fset)
  also have "{d. markAt m d meal} \<inter> fset (fmdom m) = {d. markAt m d meal}"
    by (auto simp: markAt_def fmdom.rep_eq dom_def split: option.splits)
  finally show ?thesis .
qed

lemma totals_by_marks:
  "calculateStudentTotals q s =
     \<lparr>tS = card {d. markAt (meals s) d S},
      tT1 = card {d. markAt (meals s) d T1},
      tT2 = card {d. markAt (meals s) d T2},
      uS = qS q - int (card {d. markAt (meals s) d S}),
      uT1 = qT1 q - int (card {d. markAt (meals s) d T1}),
      uT2 = qT2 q - int (card {d. markAt (meals s) d T2})\<rparr>"
  using count_objectValues[of S "meals s"] count_objectValues[of T1 "meals s"]
    count_objectValues[of T2 "meals s"]
  by (simp add: calculateStudentTotals_def fold_countDay)

lemma markAt_set: "{d. markAt m d meal} = {d. \<exists>dm. fmlookup m d = Some dm \<and> getMeal dm meal}"
  by (auto simp: markAt_def split: option.splits)

text \<open>
  C6: the three counts of a student are the numbers of day entries of its meals whose
  flag for that meal is true (a day without an entry is not counted), and each unfulfilled
  count is the quota minus the count, as an integer that may be negative, whenever the
  quota and that difference are at most \<open>2 ^ 53\<close> in absolute value (the range in which
  the subtraction of the program's numbers is exact).
\<close>

theorem calculateStudentTotals_counts:
  "tS (calculateStudentTotals q s) = card {d. \<exists>dm. fmlookup (meals s) d = Some dm \<and> mS dm}
   \<and> tT1 (calculateStudentTotals q s) = card {d. \<exists>dm. fmlookup (meals s) d = Some dm \<and> mT1 dm}
   \<and> tT2 (calculateStudentTotals q s) = card {d. \<exists>dm. fmlookup (meals s) d = Some dm \<and> mT2 dm}
   \<and> (\<bar>qS q\<bar> \<le> 2 ^ 53 \<and> \<bar>qS q - int (tS (calculateStudentTotals q s))\<bar> \<le> 2 ^ 53 \<longrightarrow>
        uS (calculateStudentTotals q s) = qS q - int (tS (calculateStudentTotals q s)))
   \<and> (\<bar>qT1 q\<bar> \<le> 2 ^ 53 \<and> \<bar>qT1 q - int (tT1 (calculateStudentTotals q s))\<bar> \<le> 2 ^ 53 \<longrightarrow>
        uT1 (calculateStudentTotals q s) = qT1 q - int (tT1 (calculateStudentTotals q s)))
   \<and> (\<bar>qT2 q\<bar> \<le> 2 ^ 53 \<and> \<bar>qT2 q - int (tT2 (calculateStudentTotals q s))\<bar> \<le> 2 ^ 53 \<longrightarrow>
        uT2 (calculateStudentTotals q s) = qT2 q - int (tT2 (calculateStudentTotals q s)))"
  using markAt_set[of "meals s" S] markAt_set[of "meals s" T1] markAt_set[of "meals s" T2]
  by (simp add: totals_by_marks)

theorem calculateStudentTotals_counts_witness:
  "tS (calculateStudentTotals \<lparr>qS = 1, qT1 = 0, qT2 = 2\<rparr>
         \<lparr>sid = ''a'', name = ''Linh'',
          meals = fmupd 1 \<lparr>mS = True, mT1 = True, mT2 = False\<rparr>
                 (fmupd 2 \<lparr>mS = True, mT1 = False, mT2 = False\<rparr> fmempty)\<rparr>) = 2
   \<and> tT1 (calculateStudentTotals \<lparr>qS = 1, qT1 = 0, qT2 = 2\<rparr>
         \<lparr>sid = ''a'', name = ''Linh'',
          meals = fmupd 1 \<lparr>mS = True, mT1 = True, mT2 = False\<rparr>
                 (fmupd 2 \<lparr>mS = True, mT1 = False, mT2 = False\<rparr> fmempty)\<rparr>) = 1
   \<and> tT2 (calculateStudentTotals \<lparr>qS = 1, qT1 = 0, qT2 = 2\<rparr>
         \<lparr>sid = ''a'', name = ''Linh'',
          meals = fmupd 1 \<lparr>mS = True, mT1 = True, mT2 = False\<rparr>
                 (fmupd 2 \<lparr>mS = True, mT1 = False, mT2 = False\<rparr> fmempty)\<rparr>) = 0
   \<and> card {d. \<exists>dm. fmlookup (meals \<lparr>sid = ''a'', name = ''Linh'',
          meals = fmupd 1 \<lparr>mS = True, mT1 = True, mT2 = False\<rparr>
                 (fmupd 2 \<lparr>mS = True, mT1 = False, mT2 = False\<rparr> fmempty)\<rparr>) d = Some dm
            \<and> mS dm} = 2
   \<and> \<bar>qS \<lparr>qS = 1, qT1 = 0, qT2 = 2\<rparr>\<bar> \<le> 2 ^ 53 \<and> \<bar>1 - 2 :: int\<bar> \<le> 2 ^ 53
   \<and> \<bar>qT1 \<lparr>qS = 1, qT1 = 0, qT2 = 2\<rparr>\<bar> \<le> 2 ^ 53 \<and> \<bar>0 - 1 :: int\<bar> \<le> 2 ^ 53
   \<and> \<bar>qT2 \<lparr>qS = 1, qT1 = 0, qT2 = 2\<rparr>\<bar> \<le> 2 ^ 53 \<and> \<bar>2 - 0 :: int\<bar> \<le> 2 ^ 53
   \<and> uS (calculateStudentTotals \<lparr>qS = 1, qT1 = 0, qT2 = 2\<rparr>
         \<lparr>sid = ''a'', name = ''Linh'',
          meals = fmupd 1 \<lparr>mS = True, mT1 = True, mT2 = False\<rparr>
                 (fmupd 2 \<lparr>mS = True, mT1 = False, mT2 = False\<rparr> fmempty)\<rparr>) = - 1
   \<and> uT1 (calculateStudentTotals \<lparr>qS = 1, qT1 = 0, qT2 = 2\<rparr>
         \<lparr>sid = ''a'', name = ''Linh'',
          meals = fmupd 1 \<lparr>mS = True, mT1 = True, mT2 = False\<rparr>
                 (fmupd 2 \<lparr>mS = True, mT1 = False, mT2 = False\<rparr> fmempty)\<rparr>) = - 1
   \<and> uT2 (calculateStudentTotals \<lparr>qS = 1, qT1 = 0, qT2 = 2\<rparr>
         \<lparr>sid = ''a'', name = ''Linh'',
          meals = fmupd 1 \<lparr>mS = True, mT1 = True, mT2 = False\<rparr>
                 (fmupd 2 \<lparr>mS = True, mT1 = False, mT2 = False\<rparr> fmempty)\<rparr>) = 2"
proof -
  let ?q = "\<lparr>qS = 1, qT1 = 0, qT2 = 2\<rparr>"
  let ?s = "\<lparr>sid = ''a'', name = ''Linh'',
          meals = fmupd 1 \<lparr>mS = True, mT1 = True, mT2 = False\<rparr>
                 (fmupd 2 \<lparr>mS = True, mT1 = False, mT2 = False\<rparr> fmempty)\<rparr>"
  have e: "tS (calculateStudentTotals ?q ?s) = 2" "tT1 (calculateStudentTotals ?q ?s) = 1"
    "tT2 (calculateStudentTotals ?q ?s) = 0"
    by code_simp+
  from calculateStudentTotals_counts [of ?q ?s] e show ?thesis by simp
qed

section \<open>Absent days and explicit all-false entries\<close>

lemma sparseDense_markAt:
  assumes "sparseDense m1 m2"
  shows "markAt m1 d meal = markAt m2 d meal"
proof (cases "d |\<in>| fmdom m2")
  case True
  with assms have "fmlookup m2 d = (case fmlookup m1 d of None \<Rightarrow> Some noMeals | Some dm \<Rightarrow> Some dm)"
    by (auto simp: sparseDense_def)
  then show ?thesis
    by (simp add: markAt_def getMeal_noMeals split: option.splits)
next
  case False
  with assms have "d |\<notin>| fmdom m1" by (auto simp: sparseDense_def)
  with False show ?thesis by (simp add: markAt_def fmdom_notD)
qed

lemma sparseDenseRoster_sameMarks:
  "sparseDenseRoster r1 r2 \<Longrightarrow> sameMarks r1 r2"
  by (auto simp: sparseDenseRoster_def sameMarks_def list_all2_conv_all_nth sparseDense_markAt)

lemma calculateDayTotals_count:
  "calculateDayTotals studs d meal = length (filter (\<lambda>s. markAt (meals s) d meal) studs)"
proof -
  have "foldl (\<lambda>acc s. acc + (if markAt (meals s) d meal then 1 else 0)) a studs
        = a + length (filter (\<lambda>s. markAt (meals s) d meal) studs)" for a :: nat
    by (induction studs arbitrary: a) simp_all
  then show ?thesis by (simp add: calculateDayTotals_def)
qed

lemma sameMarks_nth:
  "sameMarks r1 r2 \<Longrightarrow> i < length r1 \<Longrightarrow>
     sid (r1 ! i) = sid (r2 ! i) \<and> name (r1 ! i) = name (r2 ! i)
     \<and> markAt (meals (r1 ! i)) d meal = markAt (meals (r2 ! i)) d meal"
  by (simp add: sameMarks_def)

lemma sameMarks_length: "sameMarks r1 r2 \<Longrightarrow> length r1 = length r2"
  by (simp add: sameMarks_def)

lemma sameMarks_map:
  assumes "sameMarks r1 r2"
    and "\<And>a b. sid a = sid b \<Longrightarrow> name a = name b
          \<Longrightarrow> (\<And>d meal. markAt (meals a) d meal = markAt (meals b) d meal) \<Longrightarrow> f a = f b"
  shows "map f r1 = map f r2"
proof (rule nth_equalityI)
  show "length (map f r1) = length (map f r2)" using assms(1) by (simp add: sameMarks_length)
next
  fix i assume "i < length (map f r1)"
  then have i: "i < length r1" by simp
  then have i2: "i < length r2" using assms(1) by (simp add: sameMarks_length)
  have "f (r1 ! i) = f (r2 ! i)"
    using sameMarks_nth[OF assms(1) i] by (intro assms(2)) simp_all
  then show "map f r1 ! i = map f r2 ! i" using i i2 by simp
qed

lemma rowValues_cong:
  assumes "sid a = sid b" "name a = name b"
    and "\<And>d meal. markAt (meals a) d meal = markAt (meals b) d meal"
  shows "rowValues q days h i a = rowValues q days h i b"
  using assms by (simp add: rowValues_def totals_by_marks)

lemma sameMarks_observablyEqual:
  assumes "sameMarks r1 r2"
  shows "observablyEqual q r1 r2"
proof -
  have 1: "map sid r1 = map sid r2" by (rule sameMarks_map[OF assms])
  have 2: "map name r1 = map name r2" by (rule sameMarks_map[OF assms])
  have 3: "map (calculateStudentTotals q) r1 = map (calculateStudentTotals q) r2"
    by (rule sameMarks_map[OF assms]) (simp add: totals_by_marks)
  have 5: "map (\<lambda>s. markAt (meals s) d meal) r1 = map (\<lambda>s. markAt (meals s) d meal) r2" for d meal
    by (rule sameMarks_map[OF assms]) simp
  have 4: "calculateDayTotals r1 d meal = calculateDayTotals r2 d meal" for d meal
  proof -
    have "length (filter (\<lambda>s. markAt (meals s) d meal) r1) = length (filter id (map (\<lambda>s. markAt (meals s) d meal) r1))"
      by (simp add: filter_map comp_def)
    also have "\<dots> = length (filter id (map (\<lambda>s. markAt (meals s) d meal) r2))" by (simp only: 5)
    also have "\<dots> = length (filter (\<lambda>s. markAt (meals s) d meal) r2)"
      by (simp add: filter_map comp_def)
    finally show ?thesis by (simp add: calculateDayTotals_count)
  qed
  have rows: "map (\<lambda>(index, student). rowValues q days h index student) (List.enumerate 0 r1)
      = map (\<lambda>(index, student). rowValues q days h index student) (List.enumerate 0 r2)" for days h
  proof (rule nth_equalityI)
    show "length (map (\<lambda>(index, student). rowValues q days h index student) (List.enumerate 0 r1))
      = length (map (\<lambda>(index, student). rowValues q days h index student) (List.enumerate 0 r2))"
      using assms by (simp add: sameMarks_length)
  next
    fix i assume "i < length (map (\<lambda>(index, student). rowValues q days h index student) (List.enumerate 0 r1))"
    then have i: "i < length r1" by simp
    then have i2: "i < length r2" using assms by (simp add: sameMarks_length)
    have "rowValues q days h i (r1 ! i) = rowValues q days h i (r2 ! i)"
      using sameMarks_nth[OF assms i] by (intro rowValues_cong) simp_all
    then show "map (\<lambda>(index, student). rowValues q days h index student) (List.enumerate 0 r1) ! i
      = map (\<lambda>(index, student). rowValues q days h index student) (List.enumerate 0 r2) ! i"
      using i i2 by (simp add: nth_enumerate_eq)
  qed
  have 6: "handleExportExcel q r1 month year = handleExportExcel q r2 month year" for month year
    by (simp add: handleExportExcel_def createSheet_def rows totalRowValues_def 4)
  show ?thesis
    unfolding observablyEqual_def copyColumn_def using 1 2 3 4 5 6 by simp
qed


lemma sameMarksI:
  assumes "length r1 = length r2"
    and "\<And>i d meal. i < length r1 \<Longrightarrow> sid (r1 ! i) = sid (r2 ! i) \<and> name (r1 ! i) = name (r2 ! i)
            \<and> markAt (meals (r1 ! i)) d meal = markAt (meals (r2 ! i)) d meal"
  shows "sameMarks r1 r2"
  using assms by (simp add: sameMarks_def)

lemma sameMarks_toggleMeal:
  assumes "sameMarks r1 r2"
  shows "sameMarks (toggleMeal k day meal r1) (toggleMeal k day meal r2)"
proof (rule sameMarksI)
  show "length (toggleMeal k day meal r1) = length (toggleMeal k day meal r2)"
    using assms by (simp add: length_toggleMeal sameMarks_length)
next
  fix i d m assume "i < length (toggleMeal k day meal r1)"
  then have i: "i < length r1" by (simp add: length_toggleMeal)
  then have i2: "i < length r2" using assms by (simp add: sameMarks_length)
  note e = sameMarks_nth[OF assms i]
  show "sid (toggleMeal k day meal r1 ! i) = sid (toggleMeal k day meal r2 ! i)
      \<and> name (toggleMeal k day meal r1 ! i) = name (toggleMeal k day meal r2 ! i)
      \<and> markAt (meals (toggleMeal k day meal r1 ! i)) d m
          = markAt (meals (toggleMeal k day meal r2 ! i)) d m"
    using e[of d m] e[of day meal] e[of day m] i i2
    by (simp add: nth_toggleMeal markAt_fmupd getMeal_setMeal)
       (simp add: markAt_orNoMeals)
qed

lemma length_fillColumn: "length (fillColumn day meal prev) = length prev"
  by (simp add: fillColumn_def)

lemma length_clearColumn: "length (clearColumn day meal prev) = length prev"
  by (simp add: clearColumn_def)

lemma nth_fillColumn:
  "i < length prev \<Longrightarrow> fillColumn day meal prev ! i =
     (prev ! i)\<lparr>meals := fmupd day
        (setMeal (orNoMeals (fmlookup (meals (prev ! i)) day)) meal True) (meals (prev ! i))\<rparr>"
  by (simp add: fillColumn_def Let_def)

lemma nth_clearColumn:
  "i < length prev \<Longrightarrow> clearColumn day meal prev ! i =
     (prev ! i)\<lparr>meals := fmupd day
        (setMeal (orNoMeals (fmlookup (meals (prev ! i)) day)) meal False) (meals (prev ! i))\<rparr>"
  by (simp add: clearColumn_def Let_def)

lemma sameMarks_fillColumn:
  assumes "sameMarks r1 r2"
  shows "sameMarks (fillColumn day meal r1) (fillColumn day meal r2)"
proof (rule sameMarksI)
  show "length (fillColumn day meal r1) = length (fillColumn day meal r2)"
    using assms by (simp add: length_fillColumn sameMarks_length)
next
  fix i d m assume "i < length (fillColumn day meal r1)"
  then have i: "i < length r1" by (simp add: length_fillColumn)
  then have i2: "i < length r2" using assms by (simp add: sameMarks_length)
  note e = sameMarks_nth[OF assms i]
  show "sid (fillColumn day meal r1 ! i) = sid (fillColumn day meal r2 ! i)
      \<and> name (fillColumn day meal r1 ! i) = name (fillColumn day meal r2 ! i)
      \<and> markAt (meals (fillColumn day meal r1 ! i)) d m
          = markAt (meals (fillColumn day meal r2 ! i)) d m"
    using e[of d m] e[of day m] i i2
    by (simp add: nth_fillColumn markAt_fmupd getMeal_setMeal)
       (simp add: markAt_orNoMeals)
qed

lemma sameMarks_clearColumn:
  assumes "sameMarks r1 r2"
  shows "sameMarks (clearColumn day meal r1) (clearColumn day meal r2)"
proof (rule sameMarksI)
  show "length (clearColumn day meal r1) = length (clearColumn day meal r2)"
    using assms by (simp add: length_clearColumn sameMarks_length)
next
  fix i d m assume "i < length (clearColumn day meal r1)"
  then have i: "i < length r1" by (simp add: length_clearColumn)
  then have i2: "i < length r2" using assms by (simp add: sameMarks_length)
  note e = sameMarks_nth[OF assms i]
  show "sid (clearColumn day meal r1 ! i) = sid (clearColumn day meal r2 ! i)
      \<and> name (clearColumn day meal r1 ! i) = name (clearColumn day meal r2 ! i)
      \<and> markAt (meals (clearColumn day meal r1 ! i)) d m
          = markAt (meals (clearColumn day meal r2 ! i)) d m"
    using e[of d m] e[of day m] i i2
    by (simp add: nth_clearColumn markAt_fmupd getMeal_setMeal)
       (simp add: markAt_orNoMeals)
qed

lemma sameMarks_pasteColumn:
  assumes "sameMarks r1 r2"
  shows "sameMarks (pasteColumn cb day meal r1) (pasteColumn cb day meal r2)"
proof (cases cb)
  case None
  with assms show ?thesis by (simp add: pasteColumn_def)
next
  case (Some c)
  show ?thesis
  proof (rule sameMarksI)
    show "length (pasteColumn cb day meal r1) = length (pasteColumn cb day meal r2)"
      using assms by (simp add: length_pasteColumn sameMarks_length)
  next
    fix i d m assume "i < length (pasteColumn cb day meal r1)"
    then have i: "i < length r1" by (simp add: length_pasteColumn)
    then have i2: "i < length r2" using assms by (simp add: sameMarks_length)
    note e = sameMarks_nth[OF assms i]
    show "sid (pasteColumn cb day meal r1 ! i) = sid (pasteColumn cb day meal r2 ! i)
        \<and> name (pasteColumn cb day meal r1 ! i) = name (pasteColumn cb day meal r2 ! i)
        \<and> markAt (meals (pasteColumn cb day meal r1 ! i)) d m
            = markAt (meals (pasteColumn cb day meal r2 ! i)) d m"
      using e[of d m] e[of day m] i i2
      by (simp add: Some nth_pasteColumn markAt_fmupd getMeal_setMeal)
         (simp add: markAt_orNoMeals)
  qed
qed

lemma sameMarks_clearDay:
  assumes "sameMarks r1 r2"
  shows "sameMarks (clearDay c day r1) (clearDay c day r2)"
proof (cases c)
  case False
  with assms show ?thesis by (simp add: clearDay_def)
next
  case True
  show ?thesis
  proof (rule sameMarksI)
    show "length (clearDay c day r1) = length (clearDay c day r2)"
      using assms by (simp add: clearDay_def sameMarks_length)
  next
    fix i d m assume "i < length (clearDay c day r1)"
    then have i: "i < length r1" by (simp add: clearDay_def split: if_splits)
    then have i2: "i < length r2" using assms by (simp add: sameMarks_length)
    note e = sameMarks_nth[OF assms i]
    show "sid (clearDay c day r1 ! i) = sid (clearDay c day r2 ! i)
        \<and> name (clearDay c day r1 ! i) = name (clearDay c day r2 ! i)
        \<and> markAt (meals (clearDay c day r1 ! i)) d m = markAt (meals (clearDay c day r2 ! i)) d m"
      using e[of d m] i i2 by (simp add: True clearDay_def markAt_fmdrop)
  qed
qed

lemma markAt_autoFillLoop:
  "markAt (autoFillLoop month year n (Suc 0) ms) d m =
     (if d < 1 \<or> n < d \<or> getDay (newDate year month (int d)) = 6
         \<or> getDay (newDate year month (int d)) = 0
      then markAt ms d m
      else if getDay (newDate year month (int d)) = 5 then m \<noteq> T2 else True)"
  by (cases m) (auto simp: markAt_def fmlookup_autoFillLoop fmlookup_autoFillDay)

lemma sameMarks_autoFillMeals:
  assumes "sameMarks r1 r2"
  shows "sameMarks (autoFillMeals c month year r1) (autoFillMeals c month year r2)"
proof (cases c)
  case False
  with assms show ?thesis by (simp add: autoFillMeals_def)
next
  case True
  show ?thesis
  proof (rule sameMarksI)
    show "length (autoFillMeals c month year r1) = length (autoFillMeals c month year r2)"
      using assms by (simp add: autoFillMeals_def sameMarks_length)
  next
    fix i d m assume "i < length (autoFillMeals c month year r1)"
    then have i: "i < length r1" by (simp add: autoFillMeals_def split: if_splits)
    then have i2: "i < length r2" using assms by (simp add: sameMarks_length)
    note e = sameMarks_nth[OF assms i]
    show "sid (autoFillMeals c month year r1 ! i) = sid (autoFillMeals c month year r2 ! i)
        \<and> name (autoFillMeals c month year r1 ! i) = name (autoFillMeals c month year r2 ! i)
        \<and> markAt (meals (autoFillMeals c month year r1 ! i)) d m
            = markAt (meals (autoFillMeals c month year r2 ! i)) d m"
      using e[of d m] i i2 by (simp add: True autoFillMeals_def markAt_autoFillLoop)
  qed
qed

text \<open>
  C5: when \<open>r2\<close> is \<open>r1\<close> with some absent days replaced by explicit all-false
  entries, the two rosters are observably equal (ids, names, student totals, per-day
  headcounts, every copied column and both export pages), and they are still observably
  equal after the same toggle, column fill, column clear, column paste, day clear or
  automatic fill is applied to both.
\<close>

theorem sparse_dense_equivalence:
  assumes "sparseDenseRoster r1 r2"
  shows "observablyEqual q r1 r2
       \<and> observablyEqual q (toggleMeal studentId day meal r1) (toggleMeal studentId day meal r2)
       \<and> observablyEqual q (fillColumn day meal r1) (fillColumn day meal r2)
       \<and> observablyEqual q (clearColumn day meal r1) (clearColumn day meal r2)
       \<and> observablyEqual q (pasteColumn columnClipboard day meal r1)
                           (pasteColumn columnClipboard day meal r2)
       \<and> observablyEqual q (clearDay confirmed day r1) (clearDay confirmed day r2)
       \<and> observablyEqual q (autoFillMeals confirmed month year r1)
                           (autoFillMeals confirmed month year r2)"
proof -
  have s: "sameMarks r1 r2" using assms by (rule sparseDenseRoster_sameMarks)
  show ?thesis
    by (intro conjI sameMarks_observablyEqual s sameMarks_toggleMeal sameMarks_fillColumn
          sameMarks_clearColumn sameMarks_pasteColumn sameMarks_clearDay sameMarks_autoFillMeals)
qed


theorem sparse_dense_equivalence_witness:
  "sparseDenseRoster
       [\<lparr>sid = ''a'', name = ''Linh'',
         meals = fmupd 1 \<lparr>mS = True, mT1 = False, mT2 = False\<rparr> fmempty\<rparr>,
        \<lparr>sid = ''b'', name = ''Mai'', meals = fmempty\<rparr>]
       [\<lparr>sid = ''a'', name = ''Linh'',
         meals = fmupd 1 \<lparr>mS = True, mT1 = False, mT2 = False\<rparr>
                (fmupd 2 \<lparr>mS = False, mT1 = False, mT2 = False\<rparr> fmempty)\<rparr>,
        \<lparr>sid = ''b'', name = ''Mai'',
         meals = fmupd 3 \<lparr>mS = False, mT1 = False, mT2 = False\<rparr> fmempty\<rparr>]
   \<and> (observablyEqual \<lparr>qS = 14, qT1 = 14, qT2 = 12\<rparr>
       [\<lparr>sid = ''a'', name = ''Linh'',
         meals = fmupd 1 \<lparr>mS = True, mT1 = False, mT2 = False\<rparr> fmempty\<rparr>,
        \<lparr>sid = ''b'', name = ''Mai'', meals = fmempty\<rparr>]
       [\<lparr>sid = ''a'', name = ''Linh'',
         meals = fmupd 1 \<lparr>mS = True, mT1 = False, mT2 = False\<rparr>
                (fmupd 2 \<lparr>mS = False, mT1 = False, mT2 = False\<rparr> fmempty)\<rparr>,
        \<lparr>sid = ''b'', name = ''Mai'',
         meals = fmupd 3 \<lparr>mS = False, mT1 = False, mT2 = False\<rparr> fmempty\<rparr>]
   \<and> observablyEqual \<lparr>qS = 14, qT1 = 14, qT2 = 12\<rparr>
       (toggleMeal ''a'' 2 T1
        [\<lparr>sid = ''a'', name = ''Linh'',
         meals = fmupd 1 \<lparr>mS = True, mT1 = False, mT2 = False\<rparr> fmempty\<rparr>,
        \<lparr>sid = ''b'', name = ''Mai'', meals = fmempty\<rparr>])
       (toggleMeal ''a'' 2 T1
        [\<lparr>sid = ''a'', name = ''Linh'',
         meals = fmupd 1 \<lparr>mS = True, mT1 = False, mT2 = False\<rparr>
                (fmupd 2 \<lparr>mS = False, mT1 = False, mT2 = False\<rparr> fmempty)\<rparr>,
        \<lparr>sid = ''b'', name = ''Mai'',
         meals = fmupd 3 \<lparr>mS = False, mT1 = False, mT2 = False\<rparr> fmempty\<rparr>])
   \<and> observablyEqual \<lparr>qS = 14, qT1 = 14, qT2 = 12\<rparr>
       (fillColumn 2 T1
        [\<lparr>sid = ''a'', name = ''Linh'',
         meals = fmupd 1 \<lparr>mS = True, mT1 = False, mT2 = False\<rparr> fmempty\<rparr>,
        \<lparr>sid = ''b'', name = ''Mai'', meals = fmempty\<rparr>])
       (fillColumn 2 T1
        [\<lparr>sid = ''a'', name = ''Linh'',
         meals = fmupd 1 \<lparr>mS = True, mT1 = False, mT2 = False\<rparr>
                (fmupd 2 \<lparr>mS = False, mT1 = False, mT2 = False\<rparr> fmempty)\<rparr>,
        \<lparr>sid = ''b'', name = ''Mai'',
         meals = fmupd 3 \<lparr>mS = False, mT1 = False, mT2 = False\<rparr> fmempty\<rparr>])
   \<and> observablyEqual \<lparr>qS = 14, qT1 = 14, qT2 = 12\<rparr>
       (clearColumn 2 T1
        [\<lparr>sid = ''a'', name = ''Linh'',
         meals = fmupd 1 \<lparr>mS = True, mT1 = False, mT2 = False\<rparr> fmempty\<rparr>,
        \<lparr>sid = ''b'', name = ''Mai'', meals = fmempty\<rparr>])
       (clearColumn 2 T1
        [\<lparr>sid = ''a'', name = ''Linh'',
         meals = fmupd 1 \<lparr>mS = True, mT1 = False, mT2 = False\<rparr>
                (fmupd 2 \<lparr>mS = False, mT1 = False, mT2 = False\<rparr> fmempty)\<rparr>,
        \<lparr>sid = ''b'', name = ''Mai'',
         meals = fmupd 3 \<lparr>mS = False, mT1 = False, mT2 = False\<rparr> fmempty\<rparr>])
   \<and> observablyEqual \<lparr>qS = 14, qT1 = 14, qT2 = 12\<rparr>
       (pasteColumn (Some [True]) 2 T1
        [\<lparr>sid = ''a'', name = ''Linh'',
         meals = fmupd 1 \<lparr>mS = True, mT1 = False, mT2 = False\<rparr> fmempty\<rparr>,
        \<lparr>sid = ''b'', name = ''Mai'', meals = fmempty\<rparr>])
       (pasteColumn (Some [True]) 2 T1
        [\<lparr>sid = ''a'', name = ''Linh'',
         meals = fmupd 1 \<lparr>mS = True, mT1 = False, mT2 = False\<rparr>
                (fmupd 2 \<lparr>mS = False, mT1 = False, mT2 = False\<rparr> fmempty)\<rparr>,
        \<lparr>sid = ''b'', name = ''Mai'',
         meals = fmupd 3 \<lparr>mS = False, mT1 = False, mT2 = False\<rparr> fmempty\<rparr>])
   \<and> observablyEqual \<lparr>qS = 14, qT1 = 14, qT2 = 12\<rparr>
       (clearDay True 2
        [\<lparr>sid = ''a'', name = ''Linh'',
         meals = fmupd 1 \<lparr>mS = True, mT1 = False, mT2 = False\<rparr> fmempty\<rparr>,
        \<lparr>sid = ''b'', name = ''Mai'', meals = fmempty\<rparr>])
       (clearDay True 2
        [\<lparr>sid = ''a'', name = ''Linh'',
         meals = fmupd 1 \<lparr>mS = True, mT1 = False, mT2 = False\<rparr>
                (fmupd 2 \<lparr>mS = False, mT1 = False, mT2 = False\<rparr> fmempty)\<rparr>,
        \<lparr>sid = ''b'', name = ''Mai'',
         meals = fmupd 3 \<lparr>mS = False, mT1 = False, mT2 = False\<rparr> fmempty\<rparr>])
   \<and> observablyEqual \<lparr>qS = 14, qT1 = 14, qT2 = 12\<rparr>
       (autoFillMeals True 4 2023
        [\<lparr>sid = ''a'', name = ''Linh'',
         meals = fmupd 1 \<lparr>mS = True, mT1 = False, mT2 = False\<rparr> fmempty\<rparr>,
        \<lparr>sid = ''b'', name = ''Mai'', meals = fmempty\<rparr>])
       (autoFillMeals True 4 2023
        [\<lparr>sid = ''a'', name = ''Linh'',
         meals = fmupd 1 \<lparr>mS = True, mT1 = False, mT2 = False\<rparr>
                (fmupd 2 \<lparr>mS = False, mT1 = False, mT2 = False\<rparr> fmempty)\<rparr>,
        \<lparr>sid = ''b'', name = ''Mai'',
         meals = fmupd 3 \<lparr>mS = False, mT1 = False, mT2 = False\<rparr> fmempty\<rparr>]))"
proof -
  let ?r1 = "[\<lparr>sid = ''a'', name = ''Linh'',
         meals = fmupd 1 \<lparr>mS = True, mT1 = False, mT2 = False\<rparr> fmempty\<rparr>,
        \<lparr>sid = ''b'', name = ''Mai'', meals = fmempty\<rparr>]"
  let ?r2 = "[\<lparr>sid = ''a'', name = ''Linh'',
         meals = fmupd 1 \<lparr>mS = True, mT1 = False, mT2 = False\<rparr>
                (fmupd 2 \<lparr>mS = False, mT1 = False, mT2 = False\<rparr> fmempty)\<rparr>,
        \<lparr>sid = ''b'', name = ''Mai'',
         meals = fmupd 3 \<lparr>mS = False, mT1 = False, mT2 = False\<rparr> fmempty\<rparr>]"
  have h: "sparseDenseRoster ?r1 ?r2"
    by (simp add: sparseDenseRoster_def sparseDense_def noMeals_def)
  show ?thesis
    by (rule conjI [OF h sparse_dense_equivalence [OF h, where q = "\<lparr>qS = 14, qT1 = 14, qT2 = 12\<rparr>"
          and studentId = "''a''" and day = 2 and meal = T1 and columnClipboard = "Some [True]"
          and confirmed = True and month = 4 and year = 2023]])
qed

section \<open>Export layout\<close>

lemma length_concat_triples:
  "length (concat (map (\<lambda>d. [f d, g d, h d]) days)) = 3 * length days"
  by (induction days) simp_all

lemma nth_concat_triples:
  "i < length days \<Longrightarrow>
     concat (map (\<lambda>d. [f d, g d, h d]) days) ! (3 * i) = f (days ! i)
   \<and> concat (map (\<lambda>d. [f d, g d, h d]) days) ! (3 * i + 1) = g (days ! i)
   \<and> concat (map (\<lambda>d. [f d, g d, h d]) days) ! (3 * i + 2) = h (days ! i)"
proof (induction days arbitrary: i)
  case Nil
  then show ?case by simp
next
  case (Cons a days)
  show ?case
  proof (cases i)
    case 0
    then show ?thesis by simp
  next
    case (Suc k)
    with Cons.prems have "k < length days" by simp
    from Cons.IH[OF this] Suc show ?thesis
      by (simp add: numeral_3_eq_3)
  qed
qed

lemma length_sheetCols:
  "length (sheetCols days isSecondHalf) = 2 + 3 * length days + (if isSecondHalf then 6 else 0)"
  by (simp add: sheetCols_def length_concat_triples)

lemma length_totalRowValues:
  "length (totalRowValues studs days isSecondHalf)
     = 2 + 3 * length days + (if isSecondHalf then 6 else 0)"
  by (simp add: totalRowValues_def length_concat_triples)

lemma length_rowValues:
  "length (rowValues q days isSecondHalf index student)
     = 2 + 3 * length days + (if isSecondHalf then 6 else 0)"
  by (simp add: rowValues_def Let_def length_concat_triples)

lemma nth_totalRowValues:
  assumes "i < length days"
  shows "totalRowValues studs days isSecondHalf ! (2 + 3 * i + mealOffset meal)
         = showNat (calculateDayTotals studs (days ! i) meal)"
proof -
  let ?c = "concat (map (\<lambda>d. [showNat (calculateDayTotals studs d S),
                                showNat (calculateDayTotals studs d T1),
                                showNat (calculateDayTotals studs d T2)]) days)"
  have l: "3 * i + mealOffset meal < length ?c"
    using assms by (cases meal) (simp_all add: length_concat_triples)
  have "totalRowValues studs days isSecondHalf ! (2 + 3 * i + mealOffset meal)
        = ?c ! (3 * i + mealOffset meal)"
    using l by (simp add: totalRowValues_def nth_append)
  also have "\<dots> = showNat (calculateDayTotals studs (days ! i) meal)"
    using nth_concat_triples[OF assms, of "\<lambda>d. showNat (calculateDayTotals studs d S)"
        "\<lambda>d. showNat (calculateDayTotals studs d T1)" "\<lambda>d. showNat (calculateDayTotals studs d T2)"]
    by (cases meal) simp_all
  finally show ?thesis .
qed

lemma secondHalfDays_30: "secondHalfDays 30 = [17 ..< 31]"
  by (simp add: secondHalfDays_def)


lemma blank_summary_cells:
  assumes "j < 6"
  shows "totalRowValues studs days True ! (2 + 3 * length days + j) = []"
proof -
  have "[[], [], [], [], [], []] ! j = ([] :: string)"
  proof -
    have "j < length [[], [], [], [], [], [] :: string]" using assms by simp
    then have "[[], [], [], [], [], []] ! j \<in> set [[], [], [], [], [], [] :: string]"
      by (rule nth_mem)
    then show ?thesis by simp
  qed
  then show ?thesis
    by (simp add: totalRowValues_def nth_append length_concat_triples)
qed

text \<open>
  C9: in a 30-day month, for any roster, both export pages have 50 columns (2 + 16 * 3 for
  days 1 to 16, 2 + 14 * 3 + 6 for days 17 to 30 and the six summary columns), one data row
  of 50 cells per student and a totals row of 50 cells. In the totals row of each page the
  cell of day \<open>d\<close> and a meal holds the decimal text of the number of students whose
  mark for that day and meal is true, and the six summary cells of the second page are
  empty.
\<close>

theorem export_layout_30_day_month:
  assumes "getDaysInMonth month year = 30"
  shows "length (columns (fst (handleExportExcel q studs month year))) = 50
       \<and> length (columns (snd (handleExportExcel q studs month year))) = 50
       \<and> lastCol firstHalfDays False = 50
       \<and> lastCol (secondHalfDays (getDaysInMonth month year)) True = 50
       \<and> length (dataRows (fst (handleExportExcel q studs month year))) = length studs
       \<and> length (dataRows (snd (handleExportExcel q studs month year))) = length studs
       \<and> (\<forall>row \<in> set (dataRows (fst (handleExportExcel q studs month year))). length row = 50)
       \<and> (\<forall>row \<in> set (dataRows (snd (handleExportExcel q studs month year))). length row = 50)
       \<and> length (totalRow (fst (handleExportExcel q studs month year))) = 50
       \<and> length (totalRow (snd (handleExportExcel q studs month year))) = 50
       \<and> (\<forall>d meal. 1 \<le> d \<and> d \<le> 16 \<longrightarrow>
             totalRow (fst (handleExportExcel q studs month year))
                 ! (2 + 3 * (d - 1) + mealOffset meal)
               = showNat (length (filter (\<lambda>s. markAt (meals s) d meal) studs)))
       \<and> (\<forall>d meal. 17 \<le> d \<and> d \<le> 30 \<longrightarrow>
             totalRow (snd (handleExportExcel q studs month year))
                 ! (2 + 3 * (d - 17) + mealOffset meal)
               = showNat (length (filter (\<lambda>s. markAt (meals s) d meal) studs)))
       \<and> (\<forall>j<6. totalRow (snd (handleExportExcel q studs month year)) ! (44 + j) = [])"
proof -
  have f: "length firstHalfDays = 16" by (simp add: firstHalfDays_def)
  have s: "length (secondHalfDays 30) = 14" by (simp add: secondHalfDays_30)
  have fn: "firstHalfDays ! (d - 1) = d" if "1 \<le> d" "d \<le> 16" for d
  proof -
    have "[1 ..< 17] ! (d - 1) = 1 + (d - 1)"
      by (rule nth_upt) (use that in arith)
    then show ?thesis unfolding firstHalfDays_def using that by arith
  qed
  have sn: "secondHalfDays 30 ! (d - 17) = d" if "17 \<le> d" "d \<le> 30" for d
  proof -
    have "[17 ..< 31] ! (d - 17) = 17 + (d - 17)"
      by (rule nth_upt) (use that in arith)
    then show ?thesis unfolding secondHalfDays_30 using that by arith
  qed
  have a: "totalRowValues studs firstHalfDays False ! (2 + 3 * (d - 1) + mealOffset meal)
           = showNat (length (filter (\<lambda>s. markAt (meals s) d meal) studs))"
    if "1 \<le> d" "d \<le> 16" for d meal
  proof -
    have "d - 1 < length firstHalfDays" using that f by simp
    from nth_totalRowValues[OF this, of studs False meal] fn[OF that]
    show ?thesis by (simp add: calculateDayTotals_count)
  qed
  have b: "totalRowValues studs (secondHalfDays 30) True ! (2 + 3 * (d - 17) + mealOffset meal)
           = showNat (length (filter (\<lambda>s. markAt (meals s) d meal) studs))"
    if "17 \<le> d" "d \<le> 30" for d meal
  proof -
    have "d - 17 < length (secondHalfDays 30)" using that s by simp
    from nth_totalRowValues[OF this, of studs True meal] sn[OF that]
    show ?thesis by (simp add: calculateDayTotals_count)
  qed
  have c: "totalRowValues studs (secondHalfDays 30) True ! (44 + j) = []" if "j < 6" for j
    using blank_summary_cells[OF that, of studs "secondHalfDays 30"] by (simp add: s)
  show ?thesis
    using a b c
    by (simp add: handleExportExcel_def createSheet_def assms length_sheetCols
          length_totalRowValues length_rowValues lastCol_def f s image_iff split_beta)
qed


theorem export_layout_30_day_month_witness:
  "getDaysInMonth 3 2023 = 30
   \<and> length (columns (fst (handleExportExcel \<lparr>qS = 14, qT1 = 14, qT2 = 12\<rparr>
        [\<lparr>sid = ''a'', name = ''Linh'',
          meals = fmupd 1 \<lparr>mS = True, mT1 = True, mT2 = False\<rparr> fmempty\<rparr>,
         \<lparr>sid = ''b'', name = ''Mai'',
          meals = fmupd 1 \<lparr>mS = True, mT1 = False, mT2 = False\<rparr>
                 (fmupd 17 \<lparr>mS = False, mT1 = False, mT2 = True\<rparr> fmempty)\<rparr>,
         \<lparr>sid = ''c'', name = ''Lan'', meals = fmempty\<rparr>] 3 2023))) = 50
   \<and> length (columns (snd (handleExportExcel \<lparr>qS = 14, qT1 = 14, qT2 = 12\<rparr>
        [\<lparr>sid = ''a'', name = ''Linh'',
          meals = fmupd 1 \<lparr>mS = True, mT1 = True, mT2 = False\<rparr> fmempty\<rparr>,
         \<lparr>sid = ''b'', name = ''Mai'',
          meals = fmupd 1 \<lparr>mS = True, mT1 = False, mT2 = False\<rparr>
                 (fmupd 17 \<lparr>mS = False, mT1 = False, mT2 = True\<rparr> fmempty)\<rparr>,
         \<lparr>sid = ''c'', name = ''Lan'', meals = fmempty\<rparr>] 3 2023))) = 50
   \<and> length (dataRows (fst (handleExportExcel \<lparr>qS = 14, qT1 = 14, qT2 = 12\<rparr>
        [\<lparr>sid = ''a'', name = ''Linh'',
          meals = fmupd 1 \<lparr>mS = True, mT1 = True, mT2 = False\<rparr> fmempty\<rparr>,
         \<lparr>sid = ''b'', name = ''Mai'',
          meals = fmupd 1 \<lparr>mS = True, mT1 = False, mT2 = False\<rparr>
                 (fmupd 17 \<lparr>mS = False, mT1 = False, mT2 = True\<rparr> fmempty)\<rparr>,
         \<lparr>sid = ''c'', name = ''Lan'', meals = fmempty\<rparr>] 3 2023))) = 3
   \<and> length (dataRows (fst (handleExportExcel \<lparr>qS = 14, qT1 = 14, qT2 = 12\<rparr>
        [\<lparr>sid = ''a'', name = ''Linh'',
          meals = fmupd 1 \<lparr>mS = True, mT1 = True, mT2 = False\<rparr> fmempty\<rparr>,
         \<lparr>sid = ''b'', name = ''Mai'',
          meals = fmupd 1 \<lparr>mS = True, mT1 = False, mT2 = False\<rparr>
                 (fmupd 17 \<lparr>mS = False, mT1 = False, mT2 = True\<rparr> fmempty)\<rparr>,
         \<lparr>sid = ''c'', name = ''Lan'', meals = fmempty\<rparr>] 3 2023)) ! 0) = 50
   \<and> length (dataRows (snd (handleExportExcel \<lparr>qS = 14, qT1 = 14, qT2 = 12\<rparr>
        [\<lparr>sid = ''a'', name = ''Linh'',
          meals = fmupd 1 \<lparr>mS = True, mT1 = True, mT2 = False\<rparr> fmempty\<rparr>,
         \<lparr>sid = ''b'', name = ''Mai'',
          meals = fmupd 1 \<lparr>mS = True, mT1 = False, mT2 = False\<rparr>
                 (fmupd 17 \<lparr>mS = False, mT1 = False, mT2 = True\<rparr> fmempty)\<rparr>,
         \<lparr>sid = ''c'', name = ''Lan'', meals = fmempty\<rparr>] 3 2023)) ! 2) = 50
   \<and> totalRow (fst (handleExportExcel \<lparr>qS = 14, qT1 = 14, qT2 = 12\<rparr>
        [\<lparr>sid = ''a'', name = ''Linh'',
          meals = fmupd 1 \<lparr>mS = True, mT1 = True, mT2 = False\<rparr> fmempty\<rparr>,
         \<lparr>sid = ''b'', name = ''Mai'',
          meals = fmupd 1 \<lparr>mS = True, mT1 = False, mT2 = False\<rparr>
                 (fmupd 17 \<lparr>mS = False, mT1 = False, mT2 = True\<rparr> fmempty)\<rparr>,
         \<lparr>sid = ''c'', name = ''Lan'', meals = fmempty\<rparr>] 3 2023)) ! (2 + 3 * (1 - 1) + mealOffset S) = ''2''
   \<and> totalRow (snd (handleExportExcel \<lparr>qS = 14, qT1 = 14, qT2 = 12\<rparr>
        [\<lparr>sid = ''a'', name = ''Linh'',
          meals = fmupd 1 \<lparr>mS = True, mT1 = True, mT2 = False\<rparr> fmempty\<rparr>,
         \<lparr>sid = ''b'', name = ''Mai'',
          meals = fmupd 1 \<lparr>mS = True, mT1 = False, mT2 = False\<rparr>
                 (fmupd 17 \<lparr>mS = False, mT1 = False, mT2 = True\<rparr> fmempty)\<rparr>,
         \<lparr>sid = ''c'', name = ''Lan'', meals = fmempty\<rparr>] 3 2023)) ! (2 + 3 * (17 - 17) + mealOffset T2) = ''1''
   \<and> totalRow (snd (handleExportExcel \<lparr>qS = 14, qT1 = 14, qT2 = 12\<rparr>
        [\<lparr>sid = ''a'', name = ''Linh'',
          meals = fmupd 1 \<lparr>mS = True, mT1 = True, mT2 = False\<rparr> fmempty\<rparr>,
         \<lparr>sid = ''b'', name = ''Mai'',
          meals = fmupd 1 \<lparr>mS = True, mT1 = False, mT2 = False\<rparr>
                 (fmupd 17 \<lparr>mS = False, mT1 = False, mT2 = True\<rparr> fmempty)\<rparr>,
         \<lparr>sid = ''c'', name = ''Lan'', meals = fmempty\<rparr>] 3 2023)) ! (44 + 5) = []"
proof -
  let ?studs = "[\<lparr>sid = ''a'', name = ''Linh'',
          meals = fmupd 1 \<lparr>mS = True, mT1 = True, mT2 = False\<rparr> fmempty\<rparr>,
         \<lparr>sid = ''b'', name = ''Mai'',
          meals = fmupd 1 \<lparr>mS = True, mT1 = False, mT2 = False\<rparr>
                 (fmupd 17 \<lparr>mS = False, mT1 = False, mT2 = True\<rparr> fmempty)\<rparr>,
         \<lparr>sid = ''c'', name = ''Lan'', meals = fmempty\<rparr>]"
  let ?q = "\<lparr>qS = 14, qT1 = 14, qT2 = 12\<rparr>"
  have h: "getDaysInMonth 3 2023 = 30" by code_simp
  note t = export_layout_30_day_month [OF h, of ?q ?studs]
  from t have a: "totalRow (fst (handleExportExcel ?q ?studs 3 2023))
                    ! (2 + 3 * (1 - 1) + mealOffset S)
                  = showNat (length (filter (\<lambda>s. markAt (meals s) 1 S) ?studs))"
    by (elim conjE) (erule allE [of _ 1], erule allE [of _ S], simp)
  from t have b: "totalRow (snd (handleExportExcel ?q ?studs 3 2023))
                    ! (2 + 3 * (17 - 17) + mealOffset T2)
                  = showNat (length (filter (\<lambda>s. markAt (meals s) 17 T2) ?studs))"
    by (elim conjE) (erule allE [of _ 17], erule allE [of _ T2], simp)
  have c: "showNat (length (filter (\<lambda>s. markAt (meals s) 1 S) ?studs)) = ''2''"
          "showNat (length (filter (\<lambda>s. markAt (meals s) 17 T2) ?studs)) = ''1''"
    by code_simp+
  from t have d: "length (columns (fst (handleExportExcel ?q ?studs 3 2023))) = 50"
    "length (columns (snd (handleExportExcel ?q ?studs 3 2023))) = 50"
    "length (dataRows (fst (handleExportExcel ?q ?studs 3 2023))) = 3"
    by simp_all
  from t have e: "\<forall>row \<in> set (dataRows (fst (handleExportExcel ?q ?studs 3 2023))). length row = 50"
    "\<forall>row \<in> set (dataRows (snd (handleExportExcel ?q ?studs 3 2023))). length row = 50"
    by blast+
  from t have f: "totalRow (snd (handleExportExcel ?q ?studs 3 2023)) ! (44 + 5) = []"
    by (elim conjE) (erule allE [of _ 5], simp)
  from t have g: "length (dataRows (snd (handleExportExcel ?q ?studs 3 2023))) = 3"
    by simp
  have e0: "length (dataRows (fst (handleExportExcel ?q ?studs 3 2023)) ! 0) = 50"
    using e(1) d(3) nth_mem [of 0 "dataRows (fst (handleExportExcel ?q ?studs 3 2023))"]
    by simp
  have e2: "length (dataRows (snd (handleExportExcel ?q ?studs 3 2023)) ! 2) = 50"
    using e(2) g nth_mem [of 2 "dataRows (snd (handleExportExcel ?q ?studs 3 2023))"]
    by simp
  from h a b c d e0 e2 f show ?thesis by simp
qed

section \<open>Opening a month without a row\<close>

text \<open>
  C1, as the code has it: when the requested month has no row and an earlier row \<open>l\<close>
  is found, each of school name, class name, teacher name and location is the value of
  \<open>l\<close> when that is a non-empty string and the built-in default when it is null or
  empty; the quotas are those of \<open>l\<close>, or the default ones when null; the students are
  those of \<open>l\<close> in the same order, each with its id and name and with empty meals (no
  students when the list is null); and the new state is dirty.
\<close>

theorem fetchData_seeds_from_prior:
  "(\<forall>v. school_name l = Some v \<and> v \<noteq> [] \<longrightarrow> schoolName (fetchData None (Some l) st) = v)
   \<and> (school_name l = None \<or> school_name l = Some [] \<longrightarrow>
        schoolName (fetchData None (Some l) st) = DEFAULT_SCHOOL_NAME)
   \<and> (\<forall>v. class_name l = Some v \<and> v \<noteq> [] \<longrightarrow> className (fetchData None (Some l) st) = v)
   \<and> (class_name l = None \<or> class_name l = Some [] \<longrightarrow>
        className (fetchData None (Some l) st) = DEFAULT_CLASS_NAME)
   \<and> (\<forall>v. teacher_name l = Some v \<and> v \<noteq> [] \<longrightarrow> teacherName (fetchData None (Some l) st) = v)
   \<and> (teacher_name l = None \<or> teacher_name l = Some [] \<longrightarrow>
        teacherName (fetchData None (Some l) st) = DEFAULT_TEACHER_NAME)
   \<and> (\<forall>v. location_col l = Some v \<and> v \<noteq> [] \<longrightarrow> location (fetchData None (Some l) st) = v)
   \<and> (location_col l = None \<or> location_col l = Some [] \<longrightarrow>
        location (fetchData None (Some l) st) = DEFAULT_LOCATION)
   \<and> (\<forall>sm. standard_meals l = Some sm \<longrightarrow> standardMeals (fetchData None (Some l) st) = sm)
   \<and> (standard_meals l = None \<longrightarrow>
        standardMeals (fetchData None (Some l) st) = DEFAULT_STANDARD_MEALS)
   \<and> (\<forall>ps. students_col l = Some ps \<longrightarrow>
          length (students (fetchData None (Some l) st)) = length ps
        \<and> (\<forall>i<length ps.
              sid (students (fetchData None (Some l) st) ! i) = sid (ps ! i)
            \<and> name (students (fetchData None (Some l) st) ! i) = name (ps ! i)
            \<and> meals (students (fetchData None (Some l) st) ! i) = fmempty))
   \<and> (students_col l = None \<longrightarrow> students (fetchData None (Some l) st) = [])
   \<and> isDirty (fetchData None (Some l) st)"
proof -
  let ?st' = "fetchData None (Some l) st"
  have texts:
    "schoolName ?st' = orString (school_name l) DEFAULT_SCHOOL_NAME"
    "className ?st' = orString (class_name l) DEFAULT_CLASS_NAME"
    "teacherName ?st' = orString (teacher_name l) DEFAULT_TEACHER_NAME"
    "location ?st' = orString (location_col l) DEFAULT_LOCATION"
    by (simp_all add: fetchData_def)
  have quotas: "standardMeals ?st' = orValue (standard_meals l) DEFAULT_STANDARD_MEALS"
    by (simp add: fetchData_def)
  have roster: "students ?st' = map (\<lambda>s. s\<lparr>meals := fmempty\<rparr>) (orValue (students_col l) [])"
    by (simp add: fetchData_def)
  have dirty: "isDirty ?st'"
    by (simp add: fetchData_def)
  show ?thesis
    unfolding texts quotas roster using dirty
    by (auto simp: orString_def orValue_def)
qed

theorem fetchData_seeds_from_prior_witness:
  "schoolName (fetchData None
      (Some \<lparr>school_name = Some ''Truong A'', class_name = Some [],
             teacher_name = None, location_col = Some ''Son La'',
             students_col = Some [\<lparr>sid = ''a'', name = ''Linh'',
                 meals = fmupd 1 \<lparr>mS = True, mT1 = False, mT2 = False\<rparr> fmempty\<rparr>],
             standard_meals = Some \<lparr>qS = 10, qT1 = 11, qT2 = 12\<rparr>\<rparr>)
      \<lparr>schoolName = ''X'', className = ''Y'', teacherName = ''Z'', location = ''W'',
       standardMeals = \<lparr>qS = 1, qT1 = 2, qT2 = 3\<rparr>,
       students = [\<lparr>sid = ''q'', name = ''Old'', meals = fmempty\<rparr>],
       isDirty = False, loading = True\<rparr>) = ''Truong A''
   \<and> className (fetchData None
      (Some \<lparr>school_name = Some ''Truong A'', class_name = Some [],
             teacher_name = None, location_col = Some ''Son La'',
             students_col = Some [\<lparr>sid = ''a'', name = ''Linh'',
                 meals = fmupd 1 \<lparr>mS = True, mT1 = False, mT2 = False\<rparr> fmempty\<rparr>],
             standard_meals = Some \<lparr>qS = 10, qT1 = 11, qT2 = 12\<rparr>\<rparr>)
      \<lparr>schoolName = ''X'', className = ''Y'', teacherName = ''Z'', location = ''W'',
       standardMeals = \<lparr>qS = 1, qT1 = 2, qT2 = 3\<rparr>,
       students = [\<lparr>sid = ''q'', name = ''Old'', meals = fmempty\<rparr>],
       isDirty = False, loading = True\<rparr>) = DEFAULT_CLASS_NAME
   \<and> teacherName (fetchData None
      (Some \<lparr>school_name = Some ''Truong A'', class_name = Some [],
             teacher_name = None, location_col = Some ''Son La'',
             students_col = Some [\<lparr>sid = ''a'', name = ''Linh'',
                 meals = fmupd 1 \<lparr>mS = True, mT1 = False, mT2 = False\<rparr> fmempty\<rparr>],
             standard_meals = Some \<lparr>qS = 10, qT1 = 11, qT2 = 12\<rparr>\<rparr>)
      \<lparr>schoolName = ''X'', className = ''Y'', teacherName = ''Z'', location = ''W'',
       standardMeals = \<lparr>qS = 1, qT1 = 2, qT2 = 3\<rparr>,
       students = [\<lparr>sid = ''q'', name = ''Old'', meals = fmempty\<rparr>],
       isDirty = False, loading = True\<rparr>) = DEFAULT_TEACHER_NAME
   \<and> location (fetchData None
      (Some \<lparr>school_name = Some ''Truong A'', class_name = Some [],
             teacher_name = None, location_col = Some ''Son La'',
             students_col = Some [\<lparr>sid = ''a'', name = ''Linh'',
                 meals = fmupd 1 \<lparr>mS = True, mT1 = False, mT2 = False\<rparr> fmempty\<rparr>],
             standard_meals = Some \<lparr>qS = 10, qT1 = 11, qT2 = 12\<rparr>\<rparr>)
      \<lparr>schoolName = ''X'', className = ''Y'', teacherName = ''Z'', location = ''W'',
       standardMeals = \<lparr>qS = 1, qT1 = 2, qT2 = 3\<rparr>,
       students = [\<lparr>sid = ''q'', name = ''Old'', meals = fmempty\<rparr>],
       isDirty = False, loading = True\<rparr>) = ''Son La''
   \<and> standardMeals (fetchData None
      (Some \<lparr>school_name = Some ''Truong A'', class_name = Some [],
             teacher_name = None, location_col = Some ''Son La'',
             students_col = Some [\<lparr>sid = ''a'', name = ''Linh'',
                 meals = fmupd 1 \<lparr>mS = True, mT1 = False, mT2 = False\<rparr> fmempty\<rparr>],
             standard_meals = Some \<lparr>qS = 10, qT1 = 11, qT2 = 12\<rparr>\<rparr>)
      \<lparr>schoolName = ''X'', className = ''Y'', teacherName = ''Z'', location = ''W'',
       standardMeals = \<lparr>qS = 1, qT1 = 2, qT2 = 3\<rparr>,
       students = [\<lparr>sid = ''q'', name = ''Old'', meals = fmempty\<rparr>],
       isDirty = False, loading = True\<rparr>) = \<lparr>qS = 10, qT1 = 11, qT2 = 12\<rparr>
   \<and> length (students (fetchData None
      (Some \<lparr>school_name = Some ''Truong A'', class_name = Some [],
             teacher_name = None, location_col = Some ''Son La'',
             students_col = Some [\<lparr>sid = ''a'', name = ''Linh'',
                 meals = fmupd 1 \<lparr>mS = True, mT1 = False, mT2 = False\<rparr> fmempty\<rparr>],
             standard_meals = Some \<lparr>qS = 10, qT1 = 11, qT2 = 12\<rparr>\<rparr>)
      \<lparr>schoolName = ''X'', className = ''Y'', teacherName = ''Z'', location = ''W'',
       standardMeals = \<lparr>qS = 1, qT1 = 2, qT2 = 3\<rparr>,
       students = [\<lparr>sid = ''q'', name = ''Old'', meals = fmempty\<rparr>],
       isDirty = False, loading = True\<rparr>)) = 1
   \<and> sid (students (fetchData None
      (Some \<lparr>school_name = Some ''Truong A'', class_name = Some [],
             teacher_name = None, location_col = Some ''Son La'',
             students_col = Some [\<lparr>sid = ''a'', name = ''Linh'',
                 meals = fmupd 1 \<lparr>mS = True, mT1 = False, mT2 = False\<rparr> fmempty\<rparr>],
             standard_meals = Some \<lparr>qS = 10, qT1 = 11, qT2 = 12\<rparr>\<rparr>)
      \<lparr>schoolName = ''X'', className = ''Y'', teacherName = ''Z'', location = ''W'',
       standardMeals = \<lparr>qS = 1, qT1 = 2, qT2 = 3\<rparr>,
       students = [\<lparr>sid = ''q'', name = ''Old'', meals = fmempty\<rparr>],
       isDirty = False, loading = True\<rparr>) ! 0) = ''a''
   \<and> name (students (fetchData None
      (Some \<lparr>school_name = Some ''Truong A'', class_name = Some [],
             teacher_name = None, location_col = Some ''Son La'',
             students_col = Some [\<lparr>sid = ''a'', name = ''Linh'',
                 meals = fmupd 1 \<lparr>mS = True, mT1 = False, mT2 = False\<rparr> fmempty\<rparr>],
             standard_meals = Some \<lparr>qS = 10, qT1 = 11, qT2 = 12\<rparr>\<rparr>)
      \<lparr>schoolName = ''X'', className = ''Y'', teacherName = ''Z'', location = ''W'',
       standardMeals = \<lparr>qS = 1, qT1 = 2, qT2 = 3\<rparr>,
       students = [\<lparr>sid = ''q'', name = ''Old'', meals = fmempty\<rparr>],
       isDirty = False, loading = True\<rparr>) ! 0) = ''Linh''
   \<and> meals (students (fetchData None
      (Some \<lparr>school_name = Some ''Truong A'', class_name = Some [],
             teacher_name = None, location_col = Some ''Son La'',
             students_col = Some [\<lparr>sid = ''a'', name = ''Linh'',
                 meals = fmupd 1 \<lparr>mS = True, mT1 = False, mT2 = False\<rparr> fmempty\<rparr>],
             standard_meals = Some \<lparr>qS = 10, qT1 = 11, qT2 = 12\<rparr>\<rparr>)
      \<lparr>schoolName = ''X'', className = ''Y'', teacherName = ''Z'', location = ''W'',
       standardMeals = \<lparr>qS = 1, qT1 = 2, qT2 = 3\<rparr>,
       students = [\<lparr>sid = ''q'', name = ''Old'', meals = fmempty\<rparr>],
       isDirty = False, loading = True\<rparr>) ! 0) = fmempty
   \<and> isDirty (fetchData None
      (Some \<lparr>school_name = Some ''Truong A'', class_name = Some [],
             teacher_name = None, location_col = Some ''Son La'',
             students_col = Some [\<lparr>sid = ''a'', name = ''Linh'',
                 meals = fmupd 1 \<lparr>mS = True, mT1 = False, mT2 = False\<rparr> fmempty\<rparr>],
             standard_meals = Some \<lparr>qS = 10, qT1 = 11, qT2 = 12\<rparr>\<rparr>)
      \<lparr>schoolName = ''X'', className = ''Y'', teacherName = ''Z'', location = ''W'',
       standardMeals = \<lparr>qS = 1, qT1 = 2, qT2 = 3\<rparr>,
       students = [\<lparr>sid = ''q'', name = ''Old'', meals = fmempty\<rparr>],
       isDirty = False, loading = True\<rparr>)
   \<and> schoolName (fetchData None
      (Some \<lparr>school_name = None, class_name = Some ''9A'',
             teacher_name = Some [], location_col = None,
             students_col = None, standard_meals = None\<rparr>)
      \<lparr>schoolName = ''X'', className = ''Y'', teacherName = ''Z'', location = ''W'',
       standardMeals = \<lparr>qS = 1, qT1 = 2, qT2 = 3\<rparr>,
       students = [\<lparr>sid = ''q'', name = ''Old'', meals = fmempty\<rparr>],
       isDirty = False, loading = True\<rparr>) = DEFAULT_SCHOOL_NAME
   \<and> className (fetchData None
      (Some \<lparr>school_name = None, class_name = Some ''9A'',
             teacher_name = Some [], location_col = None,
             students_col = None, standard_meals = None\<rparr>)
      \<lparr>schoolName = ''X'', className = ''Y'', teacherName = ''Z'', location = ''W'',
       standardMeals = \<lparr>qS = 1, qT1 = 2, qT2 = 3\<rparr>,
       students = [\<lparr>sid = ''q'', name = ''Old'', meals = fmempty\<rparr>],
       isDirty = False, loading = True\<rparr>) = ''9A''
   \<and> teacherName (fetchData None
      (Some \<lparr>school_name = None, class_name = Some ''9A'',
             teacher_name = Some [], location_col = None,
             students_col = None, standard_meals = None\<rparr>)
      \<lparr>schoolName = ''X'', className = ''Y'', teacherName = ''Z'', location = ''W'',
       standardMeals = \<lparr>qS = 1, qT1 = 2, qT2 = 3\<rparr>,
       students = [\<lparr>sid = ''q'', name = ''Old'', meals = fmempty\<rparr>],
       isDirty = False, loading = True\<rparr>) = DEFAULT_TEACHER_NAME
   \<and> location (fetchData None
      (Some \<lparr>school_name = None, class_name = Some ''9A'',
             teacher_name = Some [], location_col = None,
             students_col = None, standard_meals = None\<rparr>)
      \<lparr>schoolName = ''X'', className = ''Y'', teacherName = ''Z'', location = ''W'',
       standardMeals = \<lparr>qS = 1, qT1 = 2, qT2 = 3\<rparr>,
       students = [\<lparr>sid = ''q'', name = ''Old'', meals = fmempty\<rparr>],
       isDirty = False, loading = True\<rparr>) = DEFAULT_LOCATION
   \<and> standardMeals (fetchData None
      (Some \<lparr>school_name = None, class_name = Some ''9A'',
             teacher_name = Some [], location_col = None,
             students_col = None, standard_meals = None\<rparr>)
      \<lparr>schoolName = ''X'', className = ''Y'', teacherName = ''Z'', location = ''W'',
       standardMeals = \<lparr>qS = 1, qT1 = 2, qT2 = 3\<rparr>,
       students = [\<lparr>sid = ''q'', name = ''Old'', meals = fmempty\<rparr>],
       isDirty = False, loading = True\<rparr>) = DEFAULT_STANDARD_MEALS
   \<and> students (fetchData None
      (Some \<lparr>school_name = None, class_name = Some ''9A'',
             teacher_name = Some [], location_col = None,
             students_col = None, standard_meals = None\<rparr>)
      \<lparr>schoolName = ''X'', className = ''Y'', teacherName = ''Z'', location = ''W'',
       standardMeals = \<lparr>qS = 1, qT1 = 2, qT2 = 3\<rparr>,
       students = [\<lparr>sid = ''q'', name = ''Old'', meals = fmempty\<rparr>],
       isDirty = False, loading = True\<rparr>) = []
   \<and> isDirty (fetchData None
      (Some \<lparr>school_name = None, class_name = Some ''9A'',
             teacher_name = Some [], location_col = None,
             students_col = None, standard_meals = None\<rparr>)
      \<lparr>schoolName = ''X'', className = ''Y'', teacherName = ''Z'', location = ''W'',
       standardMeals = \<lparr>qS = 1, qT1 = 2, qT2 = 3\<rparr>,
       students = [\<lparr>sid = ''q'', name = ''Old'', meals = fmempty\<rparr>],
       isDirty = False, loading = True\<rparr>)"
proof -
  let ?l = "\<lparr>school_name = Some ''Truong A'', class_name = Some [],
             teacher_name = None, location_col = Some ''Son La'',
             students_col = Some [\<lparr>sid = ''a'', name = ''Linh'',
                 meals = fmupd 1 \<lparr>mS = True, mT1 = False, mT2 = False\<rparr> fmempty\<rparr>],
             standard_meals = Some \<lparr>qS = 10, qT1 = 11, qT2 = 12\<rparr>\<rparr>"
  let ?l1 = "\<lparr>school_name = None, class_name = Some ''9A'',
             teacher_name = Some [], location_col = None,
             students_col = None, standard_meals = None\<rparr>"
  let ?st = "\<lparr>schoolName = ''X'', className = ''Y'', teacherName = ''Z'', location = ''W'',
       standardMeals = \<lparr>qS = 1, qT1 = 2, qT2 = 3\<rparr>,
       students = [\<lparr>sid = ''q'', name = ''Old'', meals = fmempty\<rparr>],
       isDirty = False, loading = True\<rparr>"
  from fetchData_seeds_from_prior [of ?l ?st] fetchData_seeds_from_prior [of ?l1 ?st]
  show ?thesis by simp
qed

text \<open>
  The copy is not always verbatim: an earlier row whose class name is the empty string
  seeds the new month with the default class name.
\<close>

theorem fetchData_seed_not_verbatim:
  "Some (className (fetchData None
      (Some \<lparr>school_name = Some ''Truong A'', class_name = Some [],
             teacher_name = Some ''Hung'', location_col = Some ''Son La'',
             students_col = Some [\<lparr>sid = ''a'', name = ''Linh'',
                 meals = fmupd 1 \<lparr>mS = True, mT1 = False, mT2 = False\<rparr> fmempty\<rparr>],
             standard_meals = Some \<lparr>qS = 10, qT1 = 11, qT2 = 12\<rparr>\<rparr>)
      \<lparr>schoolName = ''X'', className = ''Y'', teacherName = ''Z'', location = ''W'',
       standardMeals = \<lparr>qS = 14, qT1 = 14, qT2 = 12\<rparr>, students = [],
       isDirty = False, loading = True\<rparr>))
   \<noteq> class_name \<lparr>school_name = Some ''Truong A'', class_name = Some [],
             teacher_name = Some ''Hung'', location_col = Some ''Son La'',
             students_col = Some [\<lparr>sid = ''a'', name = ''Linh'',
                 meals = fmupd 1 \<lparr>mS = True, mT1 = False, mT2 = False\<rparr> fmempty\<rparr>],
             standard_meals = Some \<lparr>qS = 10, qT1 = 11, qT2 = 12\<rparr>\<rparr>"
  by (simp add: fetchData_def orString_def DEFAULT_CLASS_NAME_def)

end
